theory Spec2Isabelle
  imports Complex_Main "HOL-Library.AList" "HOL-Library.Word"
begin

section \<open>JavaScript numbers\<close>

text \<open>
  A JavaScript number is a finite value, one of the two infinities, or NaN. Finite
  arithmetic is taken as exact (rounding and the sign of zero are not modelled); the
  special values follow IEEE 754 as JavaScript applies it: NaN is absorbing, a comparison
  with NaN is false, \<open>0/0\<close> is NaN and \<open>Math.min\<close>/\<open>Math.max\<close> return NaN as soon as
  one argument is NaN.
\<close>

datatype jsnum = Fin real | PInf | NInf | NaN

fun js_neg :: "jsnum \<Rightarrow> jsnum" where
  "js_neg (Fin a) = Fin (- a)"
| "js_neg PInf = NInf"
| "js_neg NInf = PInf"
| "js_neg NaN = NaN"

fun js_add :: "jsnum \<Rightarrow> jsnum \<Rightarrow> jsnum" where
  "js_add NaN _ = NaN"
| "js_add _ NaN = NaN"
| "js_add PInf NInf = NaN"
| "js_add NInf PInf = NaN"
| "js_add PInf _ = PInf"
| "js_add _ PInf = PInf"
| "js_add NInf _ = NInf"
| "js_add _ NInf = NInf"
| "js_add (Fin a) (Fin b) = Fin (a + b)"

definition js_sub :: "jsnum \<Rightarrow> jsnum \<Rightarrow> jsnum" where
  "js_sub a b = js_add a (js_neg b)"

fun js_mul :: "jsnum \<Rightarrow> jsnum \<Rightarrow> jsnum" where
  "js_mul NaN _ = NaN"
| "js_mul _ NaN = NaN"
| "js_mul (Fin a) (Fin b) = Fin (a * b)"
| "js_mul (Fin a) PInf = (if a = 0 then NaN else if 0 < a then PInf else NInf)"
| "js_mul (Fin a) NInf = (if a = 0 then NaN else if 0 < a then NInf else PInf)"
| "js_mul PInf (Fin b) = (if b = 0 then NaN else if 0 < b then PInf else NInf)"
| "js_mul NInf (Fin b) = (if b = 0 then NaN else if 0 < b then NInf else PInf)"
| "js_mul PInf PInf = PInf"
| "js_mul PInf NInf = NInf"
| "js_mul NInf PInf = NInf"
| "js_mul NInf NInf = PInf"

fun js_div :: "jsnum \<Rightarrow> jsnum \<Rightarrow> jsnum" where
  "js_div NaN _ = NaN"
| "js_div _ NaN = NaN"
| "js_div (Fin a) (Fin b) =
     (if b = 0 then (if a = 0 then NaN else if 0 < a then PInf else NInf)
      else Fin (a / b))"
| "js_div (Fin a) PInf = Fin 0"
| "js_div (Fin a) NInf = Fin 0"
| "js_div PInf (Fin b) = (if 0 \<le> b then PInf else NInf)"
| "js_div NInf (Fin b) = (if 0 \<le> b then NInf else PInf)"
| "js_div PInf _ = NaN"
| "js_div NInf _ = NaN"

fun js_sqrt :: "jsnum \<Rightarrow> jsnum" where
  "js_sqrt (Fin a) = (if a < 0 then NaN else Fin (sqrt a))"
| "js_sqrt PInf = PInf"
| "js_sqrt NInf = NaN"
| "js_sqrt NaN = NaN"

fun js_log10 :: "jsnum \<Rightarrow> jsnum" where
  "js_log10 (Fin a) = (if a < 0 then NaN else if a = 0 then NInf else Fin (log 10 a))"
| "js_log10 PInf = PInf"
| "js_log10 NInf = NaN"
| "js_log10 NaN = NaN"

fun js_gt :: "jsnum \<Rightarrow> jsnum \<Rightarrow> bool" where
  "js_gt NaN _ = False"
| "js_gt _ NaN = False"
| "js_gt (Fin a) (Fin b) = (b < a)"
| "js_gt PInf PInf = False"
| "js_gt PInf _ = True"
| "js_gt _ PInf = False"
| "js_gt NInf _ = False"
| "js_gt _ NInf = True"

definition js_le :: "jsnum \<Rightarrow> jsnum \<Rightarrow> bool" where
  "js_le a b = (a \<noteq> NaN \<and> b \<noteq> NaN \<and> \<not> js_gt a b)"

fun js_max :: "jsnum \<Rightarrow> jsnum \<Rightarrow> jsnum" where
  "js_max NaN _ = NaN"
| "js_max _ NaN = NaN"
| "js_max a b = (if js_gt a b then a else b)"

fun js_min :: "jsnum \<Rightarrow> jsnum \<Rightarrow> jsnum" where
  "js_min NaN _ = NaN"
| "js_min _ NaN = NaN"
| "js_min a b = (if js_gt a b then b else a)"

section \<open>Strings built from numbers\<close>

text \<open>Decimal rendering of an integer, as a template literal does with \<open>Date.now()\<close>.\<close>

function show_nat :: "nat \<Rightarrow> string" where
  "show_nat n =
     (if n < 10 then [''0123456789'' ! n]
      else show_nat (n div 10) @ [''0123456789'' ! (n mod 10)])"
  by pat_completeness auto
termination
  by (relation "measure id") auto

declare show_nat.simps [simp del]

definition show_int :: "int \<Rightarrow> string" where
  "show_int i = (if i < 0 then ''-'' @ show_nat (nat (- i)) else show_nat (nat i))"

text \<open>
  The operand of \<open>||\<close>: \<open>undefined\<close>, \<open>null\<close> and the empty string are falsy, every other
  string is truthy.
\<close>

fun truthy :: "string option \<Rightarrow> bool" where
  "truthy None = False"
| "truthy (Some s) = (s \<noteq> [])"

section \<open>The meeting conversation manager: data\<close>

text \<open>
  Timestamps are milliseconds since the epoch: the source stores ISO strings of
  millisecond precision and subtracts the dates parsed back from them. Each operation
  reads the clock once (\<open>now\<close>). A JavaScript \<open>Map\<close> is an association list in insertion
  order: \<open>get\<close> is \<^const>\<open>map_of\<close>, \<open>set\<close> is \<^const>\<open>AList.update\<close> (an existing key
  keeps its place, a new key goes last). The meeting objects are mutated in place, so every
  mutation below is a write to the entry of the \<open>meetings\<close> map.
\<close>

datatype error = Error string | TypeError string

fun message :: "error \<Rightarrow> string" where
  "message (Error m) = m"
| "message (TypeError m) = m"

datatype participant_status = Active | Left

datatype meeting_status = MeetingActive | MeetingEnded

record config =
  turnTimeoutMs :: int
  maxParticipants :: int
  conversationLogLimit :: int

record participant_info =
  info_id :: "string option"
  info_email :: "string option"
  info_displayName :: "string option"
  info_name :: "string option"
  info_role :: "string option"

record participant =
  p_id :: string
  p_displayName :: string
  p_email :: "string option"
  p_role :: string
  p_joinTime :: int
  p_lastActivity :: int
  p_status :: participant_status
  p_speakingTime :: int
  p_turnCount :: nat
  p_isMuted :: bool
  p_isPresenting :: bool
  p_leaveTime :: "int option"

text \<open>
  A turn object: \<open>endTime\<close> and \<open>duration\<close> are absent while the turn is open and are
  added by the copy that \<open>endCurrentTurn\<close> pushes to the history.
\<close>

record turn =
  t_participantId :: string
  t_startTime :: int
  t_confidence :: jsnum
  t_turnId :: string
  t_endTime :: "int option"
  t_duration :: "int option"

record participant_stats =
  ps_totalSpeakingTime :: int
  ps_totalTurns :: nat
  ps_averageTurnDuration :: real
  ps_lastSpeakTime :: "int option"

record statistics =
  st_totalTurns :: nat
  st_totalSpeakingTime :: int
  st_participantStats :: "(string \<times> participant_stats) list"

text \<open>
  A conversation log entry. The random \<open>eventId\<close> is left out; the data of a participant
  event is the participant object itself, kept here as its key.
\<close>

datatype event_data =
    ParticipantData string
  | VoiceActivityData bool jsnum jsnum
  | MeetingEndedData int int

record log_entry =
  le_timestamp :: int
  le_type :: string
  le_participantId :: "string option"
  le_data :: event_data

record meeting =
  meetingId :: string
  startTime :: int
  status :: meeting_status
  participants :: "(string \<times> participant) list"
  activeSpeaker :: "string option"
  currentTurn :: "turn option"
  turnHistory :: "turn list"
  conversationLog :: "log_entry list"
  statistics :: statistics
  endTime :: "int option"

record manager =
  meetings :: "(string \<times> meeting) list"

record voice_activity =
  va_participantId :: string
  va_isSpeaking :: bool
  va_confidence :: jsnum
  va_audioLevel :: jsnum

section \<open>The meeting conversation manager: operations\<close>

text \<open>\<open>Array.prototype.slice(-n)\<close>, for any integer \<open>n\<close>.\<close>

definition js_slice_last :: "int \<Rightarrow> 'a list \<Rightarrow> 'a list" where
  "js_slice_last n xs =
     (if 0 < n then drop (length xs - nat n) xs
      else if n = 0 then xs
      else drop (nat (- n)) xs)"

text \<open>\<open>logConversationEvent\<close>, on the meeting object it found.\<close>

definition log_event_on :: "config \<Rightarrow> log_entry \<Rightarrow> meeting \<Rightarrow> meeting" where
  "log_event_on cfg e m =
     (let lg = conversationLog m @ [e]
      in m\<lparr>conversationLog :=
             (if conversationLogLimit cfg < int (length lg)
              then js_slice_last (conversationLogLimit cfg) lg else lg)\<rparr>)"

definition logConversationEvent ::
  "config \<Rightarrow> int \<Rightarrow> string \<Rightarrow> string \<Rightarrow> string option \<Rightarrow> event_data \<Rightarrow> manager \<Rightarrow> manager" where
  "logConversationEvent cfg now mid ty pid d s =
     (case map_of (meetings s) mid of
        None \<Rightarrow> s
      | Some m \<Rightarrow>
          s\<lparr>meetings := AList.update mid
               (log_event_on cfg
                  \<lparr>le_timestamp = now, le_type = ty, le_participantId = pid, le_data = d\<rparr> m)
               (meetings s)\<rparr>)"

text \<open>A field write on the participant object stored under \<open>pid\<close>, when there is one.\<close>

definition modify_participant ::
  "string \<Rightarrow> (participant \<Rightarrow> participant) \<Rightarrow> meeting \<Rightarrow> meeting" where
  "modify_participant pid f m =
     (case map_of (participants m) pid of
        None \<Rightarrow> m
      | Some p \<Rightarrow> m\<lparr>participants := AList.update pid (f p) (participants m)\<rparr>)"

definition modify_stats ::
  "string \<Rightarrow> (participant_stats \<Rightarrow> participant_stats) \<Rightarrow> meeting \<Rightarrow> meeting" where
  "modify_stats pid f m =
     (case map_of (st_participantStats (statistics m)) pid of
        None \<Rightarrow> m
      | Some ps \<Rightarrow>
          m\<lparr>statistics := (statistics m)
               \<lparr>st_participantStats :=
                  AList.update pid (f ps) (st_participantStats (statistics m))\<rparr>\<rparr>)"

text \<open>The turn that \<open>endCurrentTurn\<close> pushes: a copy of the open turn with its end.\<close>

definition complete_turn :: "int \<Rightarrow> turn \<Rightarrow> turn" where
  "complete_turn now ct =
     ct\<lparr>t_endTime := Some now, t_duration := Some (now - t_startTime ct)\<rparr>"

text \<open>\<open>endCurrentTurn\<close>, on the meeting object: nothing changes without an open turn.\<close>

definition endCurrentTurn_on :: "int \<Rightarrow> meeting \<Rightarrow> meeting" where
  "endCurrentTurn_on now m =
     (case currentTurn m of
        None \<Rightarrow> m
      | Some ct \<Rightarrow>
          (let d = now - t_startTime ct;
               m1 = m\<lparr>turnHistory := turnHistory m @ [complete_turn now ct]\<rparr>;
               m2 = modify_participant (t_participantId ct)
                      (\<lambda>p. p\<lparr>p_speakingTime := p_speakingTime p + d\<rparr>) m1;
               m3 = modify_stats (t_participantId ct)
                      (\<lambda>ps. ps\<lparr>ps_totalSpeakingTime := ps_totalSpeakingTime ps + d,
                               ps_totalTurns := ps_totalTurns ps + 1,
                               ps_averageTurnDuration :=
                                 real_of_int (ps_totalSpeakingTime ps + d) /
                                 real (ps_totalTurns ps + 1),
                               ps_lastSpeakTime := Some now\<rparr>) m2;
               m4 = m3\<lparr>statistics := (statistics m3)
                         \<lparr>st_totalSpeakingTime := st_totalSpeakingTime (statistics m3) + d\<rparr>\<rparr>
           in m4\<lparr>activeSpeaker := None, currentTurn := None\<rparr>))"

text \<open>
  \<open>endCurrentTurn(meetingId, updateMeeting)\<close>: reading \<open>currentTurn\<close> of a meeting that is
  not in the map is a TypeError. The flag \<open>updateMeeting\<close> only stores the object again
  under its own key, so it does not appear. The result is the completed turn, or
  \<open>undefined\<close> when no turn was open.
\<close>

definition endCurrentTurn :: "int \<Rightarrow> string \<Rightarrow> manager \<Rightarrow> error + (turn option \<times> manager)" where
  "endCurrentTurn now mid s =
     (case map_of (meetings s) mid of
        None \<Rightarrow> Inl (TypeError ''Cannot read properties of undefined (reading 'currentTurn')'')
      | Some m \<Rightarrow>
          Inr (map_option (complete_turn now) (currentTurn m),
               s\<lparr>meetings := AList.update mid (endCurrentTurn_on now m) (meetings s)\<rparr>))"

definition startNewTurn_on :: "int \<Rightarrow> string \<Rightarrow> jsnum \<Rightarrow> meeting \<Rightarrow> meeting" where
  "startNewTurn_on now pid conf m =
     (let m1 = (if currentTurn m \<noteq> None then endCurrentTurn_on now m else m);
          m2 = m1\<lparr>activeSpeaker := Some pid,
                  currentTurn := Some \<lparr>t_participantId = pid, t_startTime = now,
                                       t_confidence = conf,
                                       t_turnId = ''turn_'' @ show_int now @ ''_'' @ pid,
                                       t_endTime = None, t_duration = None\<rparr>\<rparr>;
          m3 = modify_participant pid (\<lambda>p. p\<lparr>p_turnCount := p_turnCount p + 1\<rparr>) m2
      in m3\<lparr>statistics := (statistics m3)
               \<lparr>st_totalTurns := st_totalTurns (statistics m3) + 1\<rparr>\<rparr>)"

definition startNewTurn :: "int \<Rightarrow> string \<Rightarrow> string \<Rightarrow> jsnum \<Rightarrow> manager \<Rightarrow> error + manager" where
  "startNewTurn now mid pid conf s =
     (case map_of (meetings s) mid of
        None \<Rightarrow> Inl (TypeError ''Cannot read properties of undefined (reading 'currentTurn')'')
      | Some m \<Rightarrow>
          Inr (s\<lparr>meetings := AList.update mid (startNewTurn_on now pid conf m) (meetings s)\<rparr>))"

text \<open>\<open>addParticipant\<close>: the key is the first truthy of the id, the email and a generated name.\<close>

definition participant_key :: "int \<Rightarrow> participant_info \<Rightarrow> string" where
  "participant_key now info =
     (if truthy (info_id info) then the (info_id info)
      else if truthy (info_email info) then the (info_email info)
      else ''participant_'' @ show_int now)"

definition new_participant :: "int \<Rightarrow> participant_info \<Rightarrow> participant" where
  "new_participant now info =
     \<lparr>p_id = participant_key now info,
      p_displayName =
        (if truthy (info_displayName info) then the (info_displayName info)
         else if truthy (info_name info) then the (info_name info)
         else ''Unknown''),
      p_email = info_email info,
      p_role = (if truthy (info_role info) then the (info_role info) else ''participant''),
      p_joinTime = now, p_lastActivity = now, p_status = Active,
      p_speakingTime = 0, p_turnCount = 0, p_isMuted = False, p_isPresenting = False,
      p_leaveTime = None\<rparr>"

definition addParticipant_on :: "config \<Rightarrow> int \<Rightarrow> participant_info \<Rightarrow> meeting \<Rightarrow> meeting" where
  "addParticipant_on cfg now info m =
     (let pid = participant_key now info;
          m1 = m\<lparr>participants := AList.update pid (new_participant now info) (participants m)\<rparr>;
          m2 = m1\<lparr>statistics := (statistics m1)
                  \<lparr>st_participantStats :=
                     AList.update pid
                       \<lparr>ps_totalSpeakingTime = 0, ps_totalTurns = 0,
                        ps_averageTurnDuration = 0, ps_lastSpeakTime = None\<rparr>
                       (st_participantStats (statistics m1))\<rparr>\<rparr>
      in log_event_on cfg
           \<lparr>le_timestamp = now, le_type = ''participant_joined'',
            le_participantId = Some pid, le_data = ParticipantData pid\<rparr> m2)"

record add_result =
  ar_participantId :: string
  ar_participant :: participant
  ar_totalParticipants :: nat

definition addParticipant ::
  "config \<Rightarrow> int \<Rightarrow> string \<Rightarrow> participant_info \<Rightarrow> bool \<Rightarrow> manager
     \<Rightarrow> error + (add_result \<times> manager)" where
  "addParticipant cfg now mid info updateMeeting s =
     (case map_of (meetings s) mid of
        None \<Rightarrow> Inl (Error (''Failed to add participant: '' @ ''Meeting not found''))
      | Some m \<Rightarrow>
          (let m' = addParticipant_on cfg now info m
           in Inr (\<lparr>ar_participantId = participant_key now info,
                    ar_participant = new_participant now info,
                    ar_totalParticipants = length (participants m')\<rparr>,
                   s\<lparr>meetings := AList.update mid m' (meetings s)\<rparr>)))"

text \<open>
  \<open>initializeMeeting\<close>: the loop adds the initial participants through \<open>addParticipant\<close>,
  which looks the meeting up in the map; only after the loop is the new meeting state
  stored under \<open>meetingId\<close>.
\<close>

fun add_initial ::
  "config \<Rightarrow> int \<Rightarrow> string \<Rightarrow> participant_info list \<Rightarrow> manager \<Rightarrow> error + manager" where
  "add_initial cfg now mid [] s = Inr s"
| "add_initial cfg now mid (info # infos) s =
     (case addParticipant cfg now mid info False s of
        Inl e \<Rightarrow> Inl e
      | Inr (r, s') \<Rightarrow> add_initial cfg now mid infos s')"

definition new_meeting :: "int \<Rightarrow> string \<Rightarrow> meeting" where
  "new_meeting now mid =
     \<lparr>meetingId = mid, startTime = now, status = MeetingActive, participants = [],
      activeSpeaker = None, currentTurn = None, turnHistory = [], conversationLog = [],
      statistics = \<lparr>st_totalTurns = 0, st_totalSpeakingTime = 0, st_participantStats = []\<rparr>,
      endTime = None\<rparr>"

record init_result =
  ir_meetingId :: string
  ir_status :: meeting_status
  ir_startTime :: int
  ir_participantCount :: nat

definition initializeMeeting ::
  "config \<Rightarrow> int \<Rightarrow> string \<Rightarrow> participant_info list \<Rightarrow> manager
     \<Rightarrow> error + (init_result \<times> manager)" where
  "initializeMeeting cfg now mid initialParticipants s =
     (case add_initial cfg now mid initialParticipants s of
        Inl e \<Rightarrow> Inl (Error (''Meeting initialization failed: '' @ message e))
      | Inr s' \<Rightarrow>
          Inr (\<lparr>ir_meetingId = mid, ir_status = MeetingActive, ir_startTime = now,
                ir_participantCount = length initialParticipants\<rparr>,
               s'\<lparr>meetings := AList.update mid (new_meeting now mid) (meetings s')\<rparr>))"

record remove_result =
  rr_participantId :: string
  rr_participant :: participant
  rr_totalParticipants :: nat

text \<open>
  \<open>removeParticipant\<close>: both failures are raised before anything is written. The status
  and the leave time are written first; the open turn is then ended when the participant
  is the active speaker.
\<close>

definition removeParticipant_on :: "config \<Rightarrow> int \<Rightarrow> string \<Rightarrow> meeting \<Rightarrow> meeting" where
  "removeParticipant_on cfg now pid m =
     (let m1 = modify_participant pid (\<lambda>p. p\<lparr>p_status := Left, p_leaveTime := Some now\<rparr>) m;
          m2 = (if activeSpeaker m1 = Some pid then endCurrentTurn_on now m1 else m1)
      in log_event_on cfg
           \<lparr>le_timestamp = now, le_type = ''participant_left'',
            le_participantId = Some pid, le_data = ParticipantData pid\<rparr> m2)"

definition removeParticipant ::
  "config \<Rightarrow> int \<Rightarrow> string \<Rightarrow> string \<Rightarrow> manager \<Rightarrow> error + (remove_result \<times> manager)" where
  "removeParticipant cfg now mid pid s =
     (case map_of (meetings s) mid of
        None \<Rightarrow> Inl (Error (''Failed to remove participant: '' @ ''Meeting not found''))
      | Some m \<Rightarrow>
          (case map_of (participants m) pid of
             None \<Rightarrow> Inl (Error (''Failed to remove participant: '' @ ''Participant not found''))
           | Some p \<Rightarrow>
               (let m' = removeParticipant_on cfg now pid m
                in Inr (\<lparr>rr_participantId = pid,
                         rr_participant = the (map_of (participants m') pid),
                         rr_totalParticipants =
                           length (filter (\<lambda>q. p_status q = Active) (map snd (participants m')))\<rparr>,
                        s\<lparr>meetings := AList.update mid m' (meetings s)\<rparr>))))"

text \<open>
  \<open>handleVoiceActivity\<close>: a report from a participant that is not in the meeting returns
  the failure object and changes nothing; an unknown meeting is an exception.
\<close>

datatype va_result =
    VAIgnored string
  | VAOk string string bool "string option" "turn option"

definition handleVoiceActivity_on :: "config \<Rightarrow> int \<Rightarrow> voice_activity \<Rightarrow> meeting \<Rightarrow> meeting" where
  "handleVoiceActivity_on cfg now va m =
     (let pid = va_participantId va;
          m1 = (if va_isSpeaking va \<and> js_gt (va_confidence va) (Fin 0.7)
                then startNewTurn_on now pid (va_confidence va) m
                else if \<not> va_isSpeaking va \<and> activeSpeaker m = Some pid
                then endCurrentTurn_on now m
                else m);
          m2 = modify_participant pid (\<lambda>p. p\<lparr>p_lastActivity := now\<rparr>) m1
      in log_event_on cfg
           \<lparr>le_timestamp = now, le_type = ''voice_activity'', le_participantId = Some pid,
            le_data = VoiceActivityData (va_isSpeaking va) (va_confidence va) (va_audioLevel va)\<rparr>
           m2)"

definition handleVoiceActivity ::
  "config \<Rightarrow> int \<Rightarrow> string \<Rightarrow> voice_activity \<Rightarrow> manager \<Rightarrow> error + (va_result \<times> manager)" where
  "handleVoiceActivity cfg now mid va s =
     (case map_of (meetings s) mid of
        None \<Rightarrow> Inl (Error (''Voice activity handling failed: '' @ ''Meeting not found''))
      | Some m \<Rightarrow>
          (case map_of (participants m) (va_participantId va) of
             None \<Rightarrow> Inr (VAIgnored ''Participant not found'', s)
           | Some p \<Rightarrow>
               (let m' = handleVoiceActivity_on cfg now va m
                in Inr (VAOk mid (va_participantId va) (va_isSpeaking va)
                          (activeSpeaker m') (currentTurn m'),
                        s\<lparr>meetings := AList.update mid m' (meetings s)\<rparr>))))"

text \<open>\<open>endMeeting\<close>: an open turn is ended before the status is written.\<close>

definition endMeeting_on :: "config \<Rightarrow> int \<Rightarrow> meeting \<Rightarrow> meeting" where
  "endMeeting_on cfg now m =
     (let m1 = (if currentTurn m \<noteq> None then endCurrentTurn_on now m else m);
          m2 = m1\<lparr>status := MeetingEnded, endTime := Some now\<rparr>
      in log_event_on cfg
           \<lparr>le_timestamp = now, le_type = ''meeting_ended'', le_participantId = None,
            le_data = MeetingEndedData now (now - startTime m2)\<rparr> m2)"

definition endMeeting :: "config \<Rightarrow> int \<Rightarrow> string \<Rightarrow> manager \<Rightarrow> error + (int \<times> manager)" where
  "endMeeting cfg now mid s =
     (case map_of (meetings s) mid of
        None \<Rightarrow> Inl (Error (''Failed to end meeting: '' @ ''Meeting not found''))
      | Some m \<Rightarrow>
          Inr (now, s\<lparr>meetings := AList.update mid (endMeeting_on cfg now m) (meetings s)\<rparr>))"

text \<open>\<open>getMeetingStatus\<close> reads the meeting; the list holds the participants still active.\<close>

record status_entry =
  se_id :: string
  se_displayName :: string
  se_role :: string
  se_speakingTime :: int
  se_turnCount :: nat
  se_lastActivity :: int

record meeting_status_result =
  ms_meetingId :: string
  ms_status :: meeting_status
  ms_startTime :: int
  ms_duration :: int
  ms_activeSpeaker :: "string option"
  ms_currentTurn :: "turn option"
  ms_total :: nat
  ms_active :: nat
  ms_list :: "status_entry list"
  ms_totalTurns :: nat
  ms_totalSpeakingTime :: int
  ms_averageTurnDuration :: real

definition getMeetingStatus :: "int \<Rightarrow> string \<Rightarrow> manager \<Rightarrow> error + meeting_status_result" where
  "getMeetingStatus now mid s =
     (case map_of (meetings s) mid of
        None \<Rightarrow> Inl (Error (''Failed to get meeting status: '' @ ''Meeting not found''))
      | Some m \<Rightarrow>
          (let activeParticipants = filter (\<lambda>p. p_status p = Active) (map snd (participants m))
           in Inr \<lparr>ms_meetingId = mid, ms_status = status m, ms_startTime = startTime m,
                   ms_duration = now - startTime m,
                   ms_activeSpeaker = activeSpeaker m, ms_currentTurn = currentTurn m,
                   ms_total = length (participants m),
                   ms_active = length activeParticipants,
                   ms_list = map (\<lambda>p. \<lparr>se_id = p_id p, se_displayName = p_displayName p,
                                         se_role = p_role p, se_speakingTime = p_speakingTime p,
                                         se_turnCount = p_turnCount p,
                                         se_lastActivity = p_lastActivity p\<rparr>) activeParticipants,
                   ms_totalTurns = st_totalTurns (statistics m),
                   ms_totalSpeakingTime = st_totalSpeakingTime (statistics m),
                   ms_averageTurnDuration =
                     (if 0 < st_totalTurns (statistics m)
                      then real_of_int (st_totalSpeakingTime (statistics m)) /
                           real (st_totalTurns (statistics m))
                      else 0)\<rparr>))"

section \<open>Sequences of operations\<close>

text \<open>
  A call of the manager, with the time at which it runs. A call that throws leaves the
  state as it was: every exception above is raised before the first write.
\<close>

datatype call =
    InitializeMeeting string "participant_info list"
  | AddParticipant string participant_info
  | RemoveParticipant string string
  | HandleVoiceActivity string voice_activity
  | StartNewTurn string string jsnum
  | EndCurrentTurn string
  | EndMeeting string

definition after :: "manager \<Rightarrow> error + ('a \<times> manager) \<Rightarrow> manager" where
  "after s r = (case r of Inl e \<Rightarrow> s | Inr (x, s') \<Rightarrow> s')"

fun exec :: "config \<Rightarrow> int \<times> call \<Rightarrow> manager \<Rightarrow> manager" where
  "exec cfg (now, InitializeMeeting mid infos) s = after s (initializeMeeting cfg now mid infos s)"
| "exec cfg (now, AddParticipant mid info) s = after s (addParticipant cfg now mid info True s)"
| "exec cfg (now, RemoveParticipant mid pid) s = after s (removeParticipant cfg now mid pid s)"
| "exec cfg (now, HandleVoiceActivity mid va) s = after s (handleVoiceActivity cfg now mid va s)"
| "exec cfg (now, StartNewTurn mid pid conf) s =
     (case startNewTurn now mid pid conf s of Inl e \<Rightarrow> s | Inr s' \<Rightarrow> s')"
| "exec cfg (now, EndCurrentTurn mid) s = after s (endCurrentTurn now mid s)"
| "exec cfg (now, EndMeeting mid) s = after s (endMeeting cfg now mid s)"

fun run :: "config \<Rightarrow> (int \<times> call) list \<Rightarrow> manager \<Rightarrow> manager" where
  "run cfg [] s = s"
| "run cfg (c # cs) s = run cfg cs (exec cfg c s)"

definition initial_manager :: manager where
  "initial_manager = \<lparr>meetings = []\<rparr>"

section \<open>The audio processing engine: frame codec\<close>

text \<open>
  A Node \<open>Buffer\<close> and a typed array are views on an \<open>ArrayBuffer\<close>: the bytes of the
  whole \<open>ArrayBuffer\<close> (\<open>.buffer\<close>), the offset of the view in it and the length of the
  view (in bytes for a \<open>Buffer\<close>, in elements for a typed array).
\<close>

type_synonym byte = "8 word"

record buffer =
  b_buffer :: "byte list"
  b_byteOffset :: nat
  b_length :: nat

datatype array_kind = Int16Array | Int32Array | Float32Array

record typed_array =
  ta_kind :: array_kind
  ta_buffer :: "byte list"
  ta_byteOffset :: nat
  ta_length :: nat

text \<open>The bytes a view shows.\<close>

definition buffer_bytes :: "buffer \<Rightarrow> byte list" where
  "buffer_bytes b = take (b_length b) (drop (b_byteOffset b) (b_buffer b))"

fun bytes_per_element :: "array_kind \<Rightarrow> nat" where
  "bytes_per_element Int16Array = 2"
| "bytes_per_element Int32Array = 4"
| "bytes_per_element Float32Array = 4"

definition typed_array_bytes :: "typed_array \<Rightarrow> byte list" where
  "typed_array_bytes ta =
     take (ta_length ta * bytes_per_element (ta_kind ta)) (drop (ta_byteOffset ta) (ta_buffer ta))"

text \<open>\<open>Buffer.prototype.toString('base64')\<close>: the standard alphabet, with padding.\<close>

definition b64_char :: "nat \<Rightarrow> char" where
  "b64_char n =
     ''ABCDEFGHIJKLMNOPQRSTUVWXYZabcdefghijklmnopqrstuvwxyz0123456789+/'' ! (n mod 64)"

fun base64 :: "byte list \<Rightarrow> string" where
  "base64 [] = []"
| "base64 [a] =
     (let n = unat a * 16
      in [b64_char (n div 64), b64_char n, CHR ''='', CHR ''=''])"
| "base64 [a, b] =
     (let n = (unat a * 256 + unat b) * 4
      in [b64_char (n div 4096), b64_char (n div 64), b64_char n, CHR ''=''])"
| "base64 (a # b # c # rest) =
     (let n = unat a * 65536 + unat b * 256 + unat c
      in [b64_char (n div 262144), b64_char (n div 4096), b64_char (n div 64), b64_char n]
         @ base64 rest)"

text \<open>\<open>String.prototype.toLowerCase\<close> on the letters the format names are made of.\<close>

definition lower_char :: "char \<Rightarrow> char" where
  "lower_char c =
     (let n = (of_char c :: nat)
      in if 65 \<le> n \<and> n \<le> 90 then char_of (n + 32) else c)"

definition toLowerCase :: "string \<Rightarrow> string" where
  "toLowerCase s = map lower_char s"

datatype audio_data = Base64String string | BufferData buffer | OtherData

text \<open>
  The typed array constructor on \<open>(buffer.buffer, buffer.byteOffset, n)\<close>: a RangeError
  when the offset is not a multiple of the element size, and a length that is not an
  integer is truncated.
\<close>

fun kind_name :: "array_kind \<Rightarrow> string" where
  "kind_name Int16Array = ''Int16Array''"
| "kind_name Int32Array = ''Int32Array''"
| "kind_name Float32Array = ''Float32Array''"

definition new_typed_array :: "array_kind \<Rightarrow> buffer \<Rightarrow> error + typed_array" where
  "new_typed_array k b =
     (if b_byteOffset b mod bytes_per_element k \<noteq> 0
      then Inl (Error (''start offset of '' @ kind_name k @ '' should be a multiple of '' @
                       show_nat (bytes_per_element k)))
      else Inr \<lparr>ta_kind = k, ta_buffer = b_buffer b, ta_byteOffset = b_byteOffset b,
                ta_length = b_length b div bytes_per_element k\<rparr>)"

text \<open>
  \<open>decodeAudioData\<close>. \<open>Buffer.from(string, 'base64')\<close> belongs to the runtime, which
  chooses the \<open>ArrayBuffer\<close> and the offset of the new view; it is the parameter
  \<open>from_base64\<close>. Every exception is caught and thrown again with the prefix.
\<close>

definition decodeAudioData ::
  "(string \<Rightarrow> buffer) \<Rightarrow> audio_data \<Rightarrow> string \<Rightarrow> error + typed_array" where
  "decodeAudioData from_base64 audioData format =
     (let wrap = (\<lambda>r. case r of
                        Inl e \<Rightarrow> Inl (Error (''Failed to decode audio data: '' @ message e))
                      | Inr ta \<Rightarrow> Inr ta);
          decoded = (\<lambda>b.
            if toLowerCase format = ''pcm16'' then new_typed_array Int16Array b
            else if toLowerCase format = ''pcm32'' then new_typed_array Int32Array b
            else if toLowerCase format = ''float32'' then new_typed_array Float32Array b
            else Inl (Error (''Unsupported audio format: '' @ format)))
      in case audioData of
           Base64String str \<Rightarrow> wrap (decoded (from_base64 str))
         | BufferData b \<Rightarrow> wrap (decoded b)
         | OtherData \<Rightarrow> wrap (Inl (Error ''Invalid audio data format'')))"

text \<open>
  \<open>encodeAudioData\<close>: for each of the three formats the bytes encoded are those of
  \<open>audioBuffer.buffer\<close>, the whole \<open>ArrayBuffer\<close> under the typed array.
\<close>

definition encodeAudioData :: "typed_array \<Rightarrow> string \<Rightarrow> error + string" where
  "encodeAudioData audioBuffer format =
     (if toLowerCase format = ''pcm16'' then Inr (base64 (ta_buffer audioBuffer))
      else if toLowerCase format = ''pcm32'' then Inr (base64 (ta_buffer audioBuffer))
      else if toLowerCase format = ''float32'' then Inr (base64 (ta_buffer audioBuffer))
      else Inl (Error (''Failed to encode audio data: '' @
                       ''Unsupported audio format for encoding: '' @ format)))"

section \<open>The audio processing engine: voice activity detection\<close>

record audio_config =
  sampleRate :: int
  channels :: int
  frameSize :: int
  voiceActivityThreshold :: int
  maxLatency :: int

record vad_sample =
  vs_energyDb :: jsnum
  vs_voiceDetected :: bool
  vs_timestamp :: int

record engine =
  vadBuffers :: "(string \<times> vad_sample list) list"

record vad_result =
  voiceDetected :: bool
  confidence :: jsnum
  energyDb :: jsnum
  threshold :: jsnum
  rmsEnergy :: jsnum

definition static_threshold :: "audio_config \<Rightarrow> jsnum" where
  "static_threshold cfg = Fin (real_of_int (- 40 + (voiceActivityThreshold cfg - 30) * 2))"

definition getAdaptiveThreshold :: "audio_config \<Rightarrow> engine \<Rightarrow> string \<Rightarrow> jsnum \<Rightarrow> jsnum" where
  "getAdaptiveThreshold cfg eng mid currentEnergyDb =
     (case map_of (vadBuffers eng) mid of
        None \<Rightarrow> static_threshold cfg
      | Some vadBuffer \<Rightarrow>
          if length vadBuffer < 10 then static_threshold cfg
          else
            (let silentSamples = filter (\<lambda>sample. \<not> vs_voiceDetected sample) vadBuffer
             in if 0 < length silentSamples
                then js_add
                       (js_div
                          (foldl (\<lambda>sum sample. js_add sum (vs_energyDb sample)) (Fin 0)
                             silentSamples)
                          (Fin (real (length silentSamples))))
                       (Fin 10)
                else Fin (- 40)))"

definition updateVADBuffer :: "int \<Rightarrow> string \<Rightarrow> jsnum \<Rightarrow> bool \<Rightarrow> engine \<Rightarrow> engine" where
  "updateVADBuffer now mid e v eng =
     (let old = (case map_of (vadBuffers eng) mid of None \<Rightarrow> [] | Some b \<Rightarrow> b);
          pushed = old @ [\<lparr>vs_energyDb = e, vs_voiceDetected = v, vs_timestamp = now\<rparr>];
          kept = (if 100 < length pushed then drop (length pushed - 100) pushed else pushed)
      in eng\<lparr>vadBuffers := AList.update mid kept (vadBuffers eng)\<rparr>)"

text \<open>The confidence expression of \<open>detectVoiceActivity\<close>.\<close>

definition vad_confidence :: "jsnum \<Rightarrow> jsnum \<Rightarrow> jsnum" where
  "vad_confidence e t =
     js_min (Fin 1) (js_max (Fin 0) (js_div (js_add (js_sub e t) (Fin 20)) (Fin 40)))"

definition sum_squares :: "jsnum list \<Rightarrow> jsnum" where
  "sum_squares xs =
     foldl (\<lambda>sumSquares x. let sample = js_div x (Fin 32768)
                           in js_add sumSquares (js_mul sample sample)) (Fin 0) xs"

text \<open>
  \<open>detectVoiceActivity\<close>. The frame is given by the values of its elements; \<open>None\<close> is
  an \<open>audioBuffer\<close> without elements to read (\<open>null\<close>, \<open>undefined\<close>), where reading
  \<open>length\<close> throws and the \<open>catch\<close> block returns its constant result. On a frame with no
  samples nothing throws: the division is \<open>0 / 0\<close>.
\<close>

definition detectVoiceActivity ::
  "audio_config \<Rightarrow> int \<Rightarrow> jsnum list option \<Rightarrow> string \<Rightarrow> engine \<Rightarrow> vad_result \<times> engine" where
  "detectVoiceActivity cfg now audioBuffer mid eng =
     (case audioBuffer of
        None \<Rightarrow>
          (\<lparr>voiceDetected = False, confidence = Fin 0, energyDb = Fin (- 60),
            threshold = Fin (- 40), rmsEnergy = Fin 0\<rparr>, eng)
      | Some xs \<Rightarrow>
          (let rms = js_sqrt (js_div (sum_squares xs) (Fin (real (length xs))));
               e = js_mul (Fin 20) (js_log10 (js_add rms (Fin (1 / 10 ^ 10))));
               t = getAdaptiveThreshold cfg eng mid e;
               v = js_gt e t
           in (\<lparr>voiceDetected = v, confidence = vad_confidence e t, energyDb = e,
                threshold = t, rmsEnergy = rms\<rparr>,
               updateVADBuffer now mid e v eng)))"

section \<open>The connection router\<close>

text \<open>
  A WebSocket is known by the connection id stored on it and by its \<open>readyState\<close> at the
  time of the call. What a call sends is its output: the list of (socket, message) pairs
  handed to \<open>ws.send\<close>, in order.
\<close>

datatype ready_state = CONNECTING | OPEN | CLOSING | CLOSED

record websocket =
  ws_connectionId :: string
  ws_readyState :: ready_state

record connection =
  c_ws :: websocket
  c_roomName :: "string option"
  c_meetingId :: "string option"
  c_participantIdentity :: "string option"
  c_joinedAt :: int

record bridge =
  connections :: "(string \<times> connection) list"
  rooms :: "(string \<times> string list) list"

record audio_message =
  am_type :: string
  am_audioData :: string
  am_roomName :: string
  am_participantId :: "string option"
  am_format :: string
  am_timestamp :: int

record livekit_payload =
  lp_audioData :: "string option"
  lp_roomName :: "string option"
  lp_participantId :: "string option"
  lp_format :: "string option"

datatype livekit_result =
    LiveKitFailed string
  | LiveKitOk string "string option" bool

definition findConnectionsByRoom :: "string \<Rightarrow> bridge \<Rightarrow> connection list" where
  "findConnectionsByRoom roomName br =
     filter (\<lambda>c. c_roomName c = Some roomName) (map snd (connections br))"

definition sendMessage :: "websocket \<Rightarrow> audio_message \<Rightarrow> (string \<times> audio_message) list" where
  "sendMessage ws msg = (if ws_readyState ws = OPEN then [(ws_connectionId ws, msg)] else [])"

definition forwardAudioToTeams ::
  "int \<Rightarrow> string \<Rightarrow> string \<Rightarrow> string option \<Rightarrow> bridge \<Rightarrow> (string \<times> audio_message) list" where
  "forwardAudioToTeams now audioData roomName participantId br =
     (let roomConnections = findConnectionsByRoom roomName br
      in if length roomConnections = 0 then []
         else
           (let audioMessage =
                  \<lparr>am_type = ''livekit-audio-forward'', am_audioData = audioData,
                   am_roomName = roomName, am_participantId = participantId,
                   am_format = ''pcm16'', am_timestamp = now\<rparr>
            in concat (map (\<lambda>c. if ws_readyState (c_ws c) = OPEN
                                 then sendMessage (c_ws c) audioMessage else [])
                         roomConnections)))"

definition handleLiveKitAudio ::
  "int \<Rightarrow> livekit_payload \<Rightarrow> bridge \<Rightarrow> livekit_result \<times> (string \<times> audio_message) list" where
  "handleLiveKitAudio now payload br =
     (if \<not> truthy (lp_audioData payload) \<or> \<not> truthy (lp_roomName payload)
      then (LiveKitFailed ''Missing required fields: audioData, roomName'', [])
      else (LiveKitOk (the (lp_roomName payload)) (lp_participantId payload) True,
            forwardAudioToTeams now (the (lp_audioData payload)) (the (lp_roomName payload))
              (lp_participantId payload) br))"

section \<open>Invariants of the turn-taking state\<close>

definition open_turns :: "meeting \<Rightarrow> turn list" where
  "open_turns m =
     filter (\<lambda>t. t_endTime t = None)
       (turnHistory m @ (case currentTurn m of None \<Rightarrow> [] | Some t \<Rightarrow> [t]))"

definition speaker_matches_turn :: "meeting \<Rightarrow> bool" where
  "speaker_matches_turn m =
     (case currentTurn m of
        None \<Rightarrow> activeSpeaker m = None
      | Some t \<Rightarrow> activeSpeaker m = Some (t_participantId t))"

definition turn_invariant :: "meeting \<Rightarrow> bool" where
  "turn_invariant m = (length (open_turns m) \<le> 1 \<and> speaker_matches_turn m)"

definition history_closed :: "meeting \<Rightarrow> bool" where
  "history_closed m = list_all (\<lambda>t. t_endTime t \<noteq> None) (turnHistory m)"

definition turn_state_ok :: "meeting \<Rightarrow> bool" where
  "turn_state_ok m = (history_closed m \<and> speaker_matches_turn m)"

definition every_meeting :: "(meeting \<Rightarrow> bool) \<Rightarrow> manager \<Rightarrow> bool" where
  "every_meeting P s = list_all P (map snd (meetings s))"

section \<open>The speaking-time ledger\<close>

definition turn_duration :: "turn \<Rightarrow> int" where
  "turn_duration t = (case t_duration t of None \<Rightarrow> 0 | Some d \<Rightarrow> d)"

definition turns_of :: "string \<Rightarrow> meeting \<Rightarrow> turn list" where
  "turns_of pid m = filter (\<lambda>t. t_participantId t = pid) (turnHistory m)"

text \<open>
  The two halves of the ledger: the speaking time of every participant is the sum of the
  durations of the turns of the history attributed to it, and the total speaking time of
  the meeting is the sum of the durations of all turns of the history.
\<close>

definition participant_ledger :: "meeting \<Rightarrow> bool" where
  "participant_ledger m =
     list_all (\<lambda>(pid, p). p_speakingTime p = sum_list (map turn_duration (turns_of pid m)))
       (participants m)"

definition total_ledger :: "meeting \<Rightarrow> bool" where
  "total_ledger m =
     (st_totalSpeakingTime (statistics m) = sum_list (map turn_duration (turnHistory m)))"

definition speaking_ledger :: "meeting \<Rightarrow> bool" where
  "speaking_ledger m = (participant_ledger m \<and> total_ledger m)"

text \<open>
  The calls under which the ledger is kept: a participant is added under a key the meeting
  does not hold yet, and a turn is started for a participant of the meeting (as
  \<open>handleVoiceActivity\<close> does).
\<close>

fun admissible :: "int \<times> call \<Rightarrow> manager \<Rightarrow> bool" where
  "admissible (now, AddParticipant mid info) s =
     (case map_of (meetings s) mid of
        None \<Rightarrow> True
      | Some m \<Rightarrow> map_of (participants m) (participant_key now info) = None)"
| "admissible (now, StartNewTurn mid pid conf) s =
     (case map_of (meetings s) mid of
        None \<Rightarrow> True
      | Some m \<Rightarrow> map_of (participants m) pid \<noteq> None)"
| "admissible (now, c) s = True"

fun admissible_run :: "config \<Rightarrow> (int \<times> call) list \<Rightarrow> manager \<Rightarrow> bool" where
  "admissible_run cfg [] s = True"
| "admissible_run cfg (c # cs) s = (admissible c s \<and> admissible_run cfg cs (exec cfg c s))"

text \<open>The form of the ledger that the steps preserve.\<close>

definition pmap :: "meeting \<Rightarrow> string \<Rightarrow> participant option" where
  "pmap m = map_of (participants m)"

definition keys_distinct :: "meeting \<Rightarrow> bool" where
  "keys_distinct m = distinct (map fst (participants m))"

definition ledger_core :: "meeting \<Rightarrow> bool" where
  "ledger_core m =
     ((\<forall>t \<in> set (turnHistory m). pmap m (t_participantId t) \<noteq> None) \<and>
      (\<forall>t. currentTurn m = Some t \<longrightarrow> pmap m (t_participantId t) \<noteq> None) \<and>
      (\<forall>pid p. pmap m pid = Some p \<longrightarrow>
         p_speakingTime p = sum_list (map turn_duration (turns_of pid m))) \<and>
      st_totalSpeakingTime (statistics m) = sum_list (map turn_duration (turnHistory m)))"

definition ledger_ok :: "meeting \<Rightarrow> bool" where
  "ledger_ok m = (keys_distinct m \<and> ledger_core m)"

section \<open>Well-formed participant maps\<close>

text \<open>
  The keys of a \<open>Map\<close> are distinct, and \<open>addParticipant\<close> stores every participant
  object under its own \<open>id\<close>.
\<close>

definition ids_match :: "(string \<times> participant) list \<Rightarrow> bool" where
  "ids_match al = (distinct (map fst al) \<and> list_all (\<lambda>(k, q). p_id q = k) al)"

definition participants_wf :: "meeting \<Rightarrow> bool" where
  "participants_wf m = ids_match (participants m)"

section \<open>The rolling window of the detector\<close>

text \<open>The rolling window of a meeting; a meeting without a buffer has an empty window.\<close>

definition window :: "engine \<Rightarrow> string \<Rightarrow> vad_sample list" where
  "window eng mid = (case map_of (vadBuffers eng) mid of None \<Rightarrow> [] | Some w \<Rightarrow> w)"

definition non_speech :: "vad_sample list \<Rightarrow> vad_sample list" where
  "non_speech w = filter (\<lambda>x. \<not> vs_voiceDetected x) w"

text \<open>The mean of a list of energies, in JavaScript arithmetic.\<close>

fun js_sum :: "jsnum list \<Rightarrow> jsnum" where
  "js_sum [] = Fin 0"
| "js_sum (x # xs) = js_add x (js_sum xs)"

definition js_mean :: "jsnum list \<Rightarrow> jsnum" where
  "js_mean xs = js_div (js_sum xs) (Fin (real (length xs)))"

section \<open>What a routing result reports\<close>

text \<open>The only field of the result that speaks of forwarding.\<close>

fun forwardedToTeams :: "livekit_result \<Rightarrow> bool" where
  "forwardedToTeams (LiveKitOk roomName participantId forwarded) = forwarded"
| "forwardedToTeams (LiveKitFailed e) = False"

definition open_connections :: "string \<Rightarrow> bridge \<Rightarrow> connection list" where
  "open_connections roomName br =
     filter (\<lambda>c. ws_readyState (c_ws c) = OPEN) (findConnectionsByRoom roomName br)"

section \<open>Concrete inputs\<close>

text \<open>
  The configuration with the defaults of the constructor, and the calls of a small
  meeting: \<open>m1\<close> is created, \<open>p1\<close> and \<open>p2\<close> join, \<open>p1\<close> speaks from 1000 ms to 3000 ms.
\<close>

definition default_config :: config where
  "default_config = \<lparr>turnTimeoutMs = 3000, maxParticipants = 50, conversationLogLimit = 1000\<rparr>"

definition info_of :: "string \<Rightarrow> participant_info" where
  "info_of i = \<lparr>info_id = Some i, info_email = None, info_displayName = None,
                 info_name = None, info_role = None\<rparr>"

definition report :: "string \<Rightarrow> bool \<Rightarrow> real \<Rightarrow> voice_activity" where
  "report pid sp c = \<lparr>va_participantId = pid, va_isSpeaking = sp, va_confidence = Fin c,
                       va_audioLevel = Fin 0\<rparr>"

definition meeting_opens :: "(int \<times> call) list" where
  "meeting_opens =
     [(0, InitializeMeeting ''m1'' []),
      (0, AddParticipant ''m1'' (info_of ''p1'')),
      (0, AddParticipant ''m1'' (info_of ''p2''))]"

definition p1_speaks :: "(int \<times> call) list" where
  "p1_speaks =
     [(1000, HandleVoiceActivity ''m1'' (report ''p1'' True 0.9)),
      (3000, HandleVoiceActivity ''m1'' (report ''p1'' False 0))]"

text \<open>\<open>p1\<close> is added a second time.\<close>

definition p1_rejoins :: "(int \<times> call) list" where
  "p1_rejoins = [(4000, AddParticipant ''m1'' (info_of ''p1''))]"

text \<open>
  The audio configuration with the defaults of the constructor, an engine that has seen no
  frame, a window of ten quiet entries and one loud one, and two frames of two samples.
\<close>

definition default_audio_config :: audio_config where
  "default_audio_config =
     \<lparr>sampleRate = 16000, channels = 1, frameSize = 50, voiceActivityThreshold = 30,
      maxLatency = 250\<rparr>"

definition new_engine :: engine where
  "new_engine = \<lparr>vadBuffers = []\<rparr>"

definition quiet_window :: "vad_sample list" where
  "quiet_window =
     map (\<lambda>i. \<lparr>vs_energyDb = Fin (- 50), vs_voiceDetected = False, vs_timestamp = i\<rparr>) [0, 50, 100, 150, 200]
     @ map (\<lambda>i. \<lparr>vs_energyDb = Fin (- 70), vs_voiceDetected = False, vs_timestamp = i\<rparr>) [250, 300, 350, 400, 450]
     @ [\<lparr>vs_energyDb = Fin (- 10), vs_voiceDetected = True, vs_timestamp = 500\<rparr>]"

definition silent_frame :: "jsnum list option" where
  "silent_frame = Some [Fin 0, Fin 0]"

definition loud_frame :: "jsnum list option" where
  "loud_frame = Some [Fin (- 32768), Fin (- 32768)]"

text \<open>
  Two payloads that are views on a larger \<open>ArrayBuffer\<close> (a slice, and a view at offset 0
  of a buffer pool), a bridge whose only connection of \<open>room1\<close> is closed, a bridge with one
  closed and one open connection, and an audio message for \<open>room1\<close>.
\<close>

definition sliced_payload :: buffer where
  "sliced_payload = \<lparr>b_buffer = [1, 2, 3, 4], b_byteOffset = 2, b_length = 2\<rparr>"

definition pooled_payload :: buffer where
  "pooled_payload = \<lparr>b_buffer = [0, 0, 128, 63, 9, 9, 9, 9], b_byteOffset = 0, b_length = 4\<rparr>"

definition closed_socket_bridge :: bridge where
  "closed_socket_bridge =
     \<lparr>connections =
        [(''conn_1'',
          \<lparr>c_ws = \<lparr>ws_connectionId = ''conn_1'', ws_readyState = CLOSED\<rparr>,
           c_roomName = Some ''room1'', c_meetingId = None, c_participantIdentity = None,
           c_joinedAt = 0\<rparr>)],
      rooms = [(''room1'', [''conn_1''])]\<rparr>"

definition mixed_bridge :: bridge where
  "mixed_bridge =
     \<lparr>connections =
        [(''conn_1'',
          \<lparr>c_ws = \<lparr>ws_connectionId = ''conn_1'', ws_readyState = CLOSED\<rparr>,
           c_roomName = Some ''room1'', c_meetingId = None, c_participantIdentity = None,
           c_joinedAt = 0\<rparr>),
         (''conn_2'',
          \<lparr>c_ws = \<lparr>ws_connectionId = ''conn_2'', ws_readyState = OPEN\<rparr>,
           c_roomName = Some ''room1'', c_meetingId = None, c_participantIdentity = None,
           c_joinedAt = 0\<rparr>)],
      rooms = [(''room1'', [''conn_1'', ''conn_2''])]\<rparr>"

definition audio_for_room1 :: livekit_payload where
  "audio_for_room1 =
     \<lparr>lp_audioData = Some ''AAAA'', lp_roomName = Some ''room1'',
      lp_participantId = Some ''agent'', lp_format = None\<rparr>"

text \<open>
  A turn is started directly for \<open>ghost\<close>, who is not a participant of \<open>m1\<close>, and ended;
  \<open>ghost\<close> then joins.
\<close>

definition ghost_speaks :: "(int \<times> call) list" where
  "ghost_speaks =
     [(0, InitializeMeeting ''m1'' []),
      (1000, StartNewTurn ''m1'' ''ghost'' (Fin 0.9)),
      (3000, EndCurrentTurn ''m1'')]"

definition ghost_joins :: "int \<times> call" where
  "ghost_joins = (4000, AddParticipant ''m1'' (info_of ''ghost''))"

text \<open>
  The engine after a run of frames of one meeting, and the engine that has seen a frame
  without samples followed by nine frames of silence.
\<close>

fun feed :: "audio_config \<Rightarrow> string \<Rightarrow> (int \<times> jsnum list option) list \<Rightarrow> engine \<Rightarrow> engine" where
  "feed cfg mid [] eng = eng"
| "feed cfg mid ((now, frame) # frames) eng =
     feed cfg mid frames (snd (detectVoiceActivity cfg now frame mid eng))"

definition after_empty_frame :: engine where
  "after_empty_frame =
     feed default_audio_config ''m1''
       ((0, Some []) #
        map (\<lambda>now. (now, silent_frame)) [50, 100, 150, 200, 250, 300, 350, 400, 450])
       new_engine"

section \<open>One open turn per meeting\<close>

lemma list_all_snd_update:
  "list_all P (map snd al) \<Longrightarrow> P v \<Longrightarrow> list_all P (map snd (AList.update k v al))"
  by (induction al) auto

lemma list_all_snd_map_of:
  "list_all P (map snd al) \<Longrightarrow> map_of al k = Some v \<Longrightarrow> P v"
  by (induction al) (auto split: if_splits)

lemma every_meeting_update:
  "every_meeting P s \<Longrightarrow> P m \<Longrightarrow>
   every_meeting P (s\<lparr>meetings := AList.update k m (meetings s)\<rparr>)"
  by (simp add: every_meeting_def list_all_snd_update)

lemma every_meeting_lookup:
  "every_meeting P s \<Longrightarrow> map_of (meetings s) k = Some m \<Longrightarrow> P m"
  by (auto simp: every_meeting_def dest: list_all_snd_map_of)

text \<open>What each step leaves alone, and what it writes.\<close>

lemma log_event_on_fields [simp]:
  "turnHistory (log_event_on cfg e m) = turnHistory m"
  "currentTurn (log_event_on cfg e m) = currentTurn m"
  "activeSpeaker (log_event_on cfg e m) = activeSpeaker m"
  "participants (log_event_on cfg e m) = participants m"
  "statistics (log_event_on cfg e m) = statistics m"
  by (simp_all add: log_event_on_def Let_def)

lemma modify_participant_fields [simp]:
  "turnHistory (modify_participant pid f m) = turnHistory m"
  "currentTurn (modify_participant pid f m) = currentTurn m"
  "activeSpeaker (modify_participant pid f m) = activeSpeaker m"
  "statistics (modify_participant pid f m) = statistics m"
  by (simp_all add: modify_participant_def split: option.splits)

lemma modify_stats_fields [simp]:
  "turnHistory (modify_stats pid f m) = turnHistory m"
  "currentTurn (modify_stats pid f m) = currentTurn m"
  "activeSpeaker (modify_stats pid f m) = activeSpeaker m"
  "participants (modify_stats pid f m) = participants m"
  "st_totalTurns (statistics (modify_stats pid f m)) = st_totalTurns (statistics m)"
  "st_totalSpeakingTime (statistics (modify_stats pid f m)) = st_totalSpeakingTime (statistics m)"
  by (simp_all add: modify_stats_def split: option.splits)

lemma endCurrentTurn_on_turn [simp]:
  "currentTurn (endCurrentTurn_on now m) = None"
  "activeSpeaker (endCurrentTurn_on now m) =
     (case currentTurn m of None \<Rightarrow> activeSpeaker m | Some t \<Rightarrow> None)"
  "turnHistory (endCurrentTurn_on now m) =
     turnHistory m @ (case currentTurn m of None \<Rightarrow> [] | Some t \<Rightarrow> [complete_turn now t])"
  by (simp_all add: endCurrentTurn_on_def Let_def split: option.splits)

lemma startNewTurn_on_turn [simp]:
  "currentTurn (startNewTurn_on now pid conf m) =
     Some \<lparr>t_participantId = pid, t_startTime = now, t_confidence = conf,
           t_turnId = ''turn_'' @ show_int now @ ''_'' @ pid,
           t_endTime = None, t_duration = None\<rparr>"
  "activeSpeaker (startNewTurn_on now pid conf m) = Some pid"
  "turnHistory (startNewTurn_on now pid conf m) =
     turnHistory m @ (case currentTurn m of None \<Rightarrow> [] | Some t \<Rightarrow> [complete_turn now t])"
  by (simp_all add: startNewTurn_on_def Let_def split: option.splits)

lemma complete_turn_closed [simp]: "t_endTime (complete_turn now t) = Some now"
  by (simp add: complete_turn_def)


lemma speaker_matches_turn_eq:
  "speaker_matches_turn m \<longleftrightarrow> activeSpeaker m = map_option t_participantId (currentTurn m)"
  by (simp add: speaker_matches_turn_def split: option.splits)

lemmas turn_defs = turn_state_ok_def history_closed_def speaker_matches_turn_eq

lemma turn_state_ok_end: "turn_state_ok m \<Longrightarrow> turn_state_ok (endCurrentTurn_on now m)"
  by (simp add: turn_defs split: option.splits)

lemma turn_state_ok_start: "turn_state_ok m \<Longrightarrow> turn_state_ok (startNewTurn_on now pid conf m)"
  by (simp add: turn_defs split: option.splits)

lemma turn_state_ok_add: "turn_state_ok m \<Longrightarrow> turn_state_ok (addParticipant_on cfg now info m)"
  by (simp add: turn_defs addParticipant_on_def Let_def)

lemma turn_state_ok_remove: "turn_state_ok m \<Longrightarrow> turn_state_ok (removeParticipant_on cfg now pid m)"
  by (simp add: turn_defs removeParticipant_on_def Let_def split: option.splits)

lemma turn_state_ok_voice: "turn_state_ok m \<Longrightarrow> turn_state_ok (handleVoiceActivity_on cfg now va m)"
  by (simp add: turn_defs handleVoiceActivity_on_def Let_def split: option.splits)

lemma turn_state_ok_endMeeting: "turn_state_ok m \<Longrightarrow> turn_state_ok (endMeeting_on cfg now m)"
  by (simp add: turn_defs endMeeting_on_def Let_def split: option.splits)

lemma turn_state_ok_new: "turn_state_ok (new_meeting now mid)"
  by (simp add: turn_defs new_meeting_def)


lemma add_initial_turn_state:
  "every_meeting turn_state_ok s \<Longrightarrow> add_initial cfg now mid infos s = Inr s' \<Longrightarrow>
   every_meeting turn_state_ok s'"
proof (induction infos arbitrary: s)
  case Nil
  then show ?case by simp
next
  case (Cons info infos)
  from Cons.prems(2) obtain r s1 where
    a: "addParticipant cfg now mid info False s = Inr (r, s1)" and
    b: "add_initial cfg now mid infos s1 = Inr s'"
    by (auto split: sum.splits)
  from a Cons.prems(1) have "every_meeting turn_state_ok s1"
    by (auto simp: addParticipant_def Let_def split: option.splits
             intro!: every_meeting_update turn_state_ok_add dest: every_meeting_lookup)
  with b show ?case by (rule Cons.IH[rotated])
qed

lemma exec_turn_state:
  assumes "every_meeting turn_state_ok s"
  shows "every_meeting turn_state_ok (exec cfg c s)"
proof (cases c)
  case (Pair now call)
  show ?thesis
  proof (cases call)
    case (InitializeMeeting mid infos)
    with Pair assms show ?thesis
      by (auto simp: after_def initializeMeeting_def split: sum.splits
               intro!: every_meeting_update turn_state_ok_new dest: add_initial_turn_state)
  next
    case (AddParticipant mid info)
    with Pair assms show ?thesis
      by (auto simp: after_def addParticipant_def Let_def split: option.splits
               intro!: every_meeting_update turn_state_ok_add dest: every_meeting_lookup)
  next
    case (RemoveParticipant mid pid)
    with Pair assms show ?thesis
      by (auto simp: after_def removeParticipant_def Let_def split: option.splits
               intro!: every_meeting_update turn_state_ok_remove dest: every_meeting_lookup)
  next
    case (HandleVoiceActivity mid va)
    with Pair assms show ?thesis
      by (auto simp: after_def handleVoiceActivity_def Let_def split: option.splits
               intro!: every_meeting_update turn_state_ok_voice dest: every_meeting_lookup)
  next
    case (StartNewTurn mid pid conf)
    with Pair assms show ?thesis
      by (auto simp: startNewTurn_def split: option.splits
               intro!: every_meeting_update turn_state_ok_start dest: every_meeting_lookup)
  next
    case (EndCurrentTurn mid)
    with Pair assms show ?thesis
      by (auto simp: after_def endCurrentTurn_def split: option.splits
               intro!: every_meeting_update turn_state_ok_end dest: every_meeting_lookup)
  next
    case (EndMeeting mid)
    with Pair assms show ?thesis
      by (auto simp: after_def endMeeting_def split: option.splits
               intro!: every_meeting_update turn_state_ok_endMeeting dest: every_meeting_lookup)
  qed
qed

lemma run_turn_state:
  "every_meeting turn_state_ok s \<Longrightarrow> every_meeting turn_state_ok (run cfg cs s)"
  by (induction cs arbitrary: s) (simp_all add: exec_turn_state)

lemma turn_state_ok_invariant: "turn_state_ok m \<Longrightarrow> turn_invariant m"
proof -
  assume a: "turn_state_ok m"
  then have "filter (\<lambda>t. t_endTime t = None) (turnHistory m) = []"
    by (auto simp: turn_state_ok_def history_closed_def list_all_iff filter_empty_conv)
  with a show ?thesis
    by (simp add: turn_invariant_def open_turns_def turn_state_ok_def split: option.splits)
qed

lemma every_meeting_mono:
  "every_meeting P s \<Longrightarrow> (\<And>m. P m \<Longrightarrow> Q m) \<Longrightarrow> every_meeting Q s"
  by (auto simp: every_meeting_def list_all_iff)

text \<open>
  Claim C1. After any sequence of calls of \<open>initializeMeeting\<close>, \<open>addParticipant\<close>,
  \<open>removeParticipant\<close>, \<open>handleVoiceActivity\<close>, \<open>startNewTurn\<close>, \<open>endCurrentTurn\<close> and
  \<open>endMeeting\<close> on a new manager, every meeting has at most one turn without an end time
  among its history and its current turn, and its \<open>activeSpeaker\<close> is set exactly when its
  \<open>currentTurn\<close> is, to the participant of that turn.
\<close>

theorem single_open_turn:
  "every_meeting turn_invariant (run cfg cs initial_manager)"
proof -
  have "every_meeting turn_state_ok initial_manager"
    by (simp add: every_meeting_def initial_manager_def)
  then have "every_meeting turn_state_ok (run cfg cs initial_manager)"
    by (rule run_turn_state)
  then show ?thesis
    by (rule every_meeting_mono) (rule turn_state_ok_invariant)
qed

lemmas manager_defs =
  initializeMeeting_def addParticipant_def addParticipant_on_def removeParticipant_def
  removeParticipant_on_def handleVoiceActivity_def handleVoiceActivity_on_def
  endMeeting_def endMeeting_on_def endCurrentTurn_def endCurrentTurn_on_def
  startNewTurn_def startNewTurn_on_def log_event_on_def modify_participant_def
  modify_stats_def complete_turn_def participant_key_def new_participant_def new_meeting_def
  after_def initial_manager_def js_slice_last_def

lemmas fixture_defs =
  default_config_def info_of_def report_def meeting_opens_def p1_speaks_def

theorem single_open_turn_witness:
  "every_meeting turn_invariant
     (run default_config (meeting_opens @ [hd p1_speaks]) initial_manager) \<and>
   map (\<lambda>(k, m). (k, activeSpeaker m, map_option t_participantId (currentTurn m)))
     (meetings (run default_config (meeting_opens @ [hd p1_speaks]) initial_manager)) =
   [(''m1'', Some ''p1'', Some ''p1'')]"
  using single_open_turn [of default_config "meeting_opens @ [hd p1_speaks]"]
  by (simp add: fixture_defs manager_defs Let_def)

section \<open>Initializing a meeting with participants\<close>

text \<open>
  Claim C2. \<open>initializeMeeting(meetingId, ps)\<close> with a non-empty \<open>ps\<close> is claimed to
  succeed and to register every member of \<open>ps\<close>. On a manager that does not hold
  \<open>m1\<close>, the call with \<open>[p1, p2]\<close> throws: \<open>addParticipant\<close> looks the meeting up before
  \<open>initializeMeeting\<close> has stored it. On a manager that already holds \<open>m1\<close> the call
  succeeds and the meeting it stores has no participant.
\<close>

theorem initializeMeeting_with_participants:
  "initializeMeeting default_config 0 ''m1'' [info_of ''p1'', info_of ''p2''] initial_manager =
     Inl (Error ''Meeting initialization failed: Failed to add participant: Meeting not found'') \<and>
   map (\<lambda>(k, m). (k, participants m))
     (meetings (exec default_config (5, InitializeMeeting ''m1'' [info_of ''p1'', info_of ''p2''])
        (run default_config meeting_opens initial_manager))) = [(''m1'', [])]"
  by (simp add: fixture_defs manager_defs Let_def)

section \<open>Speaking time and turn history\<close>

lemma list_all_map_of:
  "distinct (map fst al) \<Longrightarrow>
   list_all (\<lambda>(k, v). Q k v) al \<longleftrightarrow> (\<forall>k v. map_of al k = Some v \<longrightarrow> Q k v)"
  by (auto simp: list_all_iff dest: map_of_SomeD)

lemma ledger_ok_participant_ledger: "ledger_ok m \<Longrightarrow> participant_ledger m"
  by (simp add: ledger_ok_def ledger_core_def keys_distinct_def pmap_def participant_ledger_def
        list_all_map_of)

lemma pmap_unchanged [simp]:
  "pmap (log_event_on cfg e m) = pmap m"
  "pmap (modify_stats pid g m) = pmap m"
  "pmap (m\<lparr>statistics := st\<rparr>) = pmap m"
  "pmap (m\<lparr>turnHistory := h\<rparr>) = pmap m"
  "pmap (m\<lparr>activeSpeaker := a\<rparr>) = pmap m"
  "pmap (m\<lparr>currentTurn := c\<rparr>) = pmap m"
  "pmap (m\<lparr>status := x\<rparr>) = pmap m"
  "pmap (m\<lparr>endTime := y\<rparr>) = pmap m"
  by (simp_all add: pmap_def)

lemma keys_distinct_unchanged [simp]:
  "keys_distinct (log_event_on cfg e m) = keys_distinct m"
  "keys_distinct (modify_stats pid g m) = keys_distinct m"
  "keys_distinct (m\<lparr>statistics := st\<rparr>) = keys_distinct m"
  "keys_distinct (m\<lparr>turnHistory := h\<rparr>) = keys_distinct m"
  "keys_distinct (m\<lparr>activeSpeaker := a\<rparr>) = keys_distinct m"
  "keys_distinct (m\<lparr>currentTurn := c\<rparr>) = keys_distinct m"
  "keys_distinct (m\<lparr>status := x\<rparr>) = keys_distinct m"
  "keys_distinct (m\<lparr>endTime := y\<rparr>) = keys_distinct m"
  by (simp_all add: keys_distinct_def)

lemma pmap_modify_participant [simp]:
  "pmap (modify_participant pid f m) =
     (case pmap m pid of None \<Rightarrow> pmap m | Some p \<Rightarrow> (pmap m)(pid \<mapsto> f p))"
  by (simp add: pmap_def modify_participant_def update_conv' split: option.splits)

lemma keys_distinct_modify_participant [simp]:
  "keys_distinct (modify_participant pid f m) = keys_distinct m"
  by (simp add: keys_distinct_def modify_participant_def distinct_update update_keys
           split: option.splits)

lemma turn_duration_complete [simp]:
  "turn_duration (complete_turn now t) = now - t_startTime t"
  "t_participantId (complete_turn now t) = t_participantId t"
  by (simp_all add: turn_duration_def complete_turn_def)

lemma endCurrentTurn_on_view [simp]:
  "turnHistory (endCurrentTurn_on now m) =
     turnHistory m @ (case currentTurn m of None \<Rightarrow> [] | Some t \<Rightarrow> [complete_turn now t])"
  "currentTurn (endCurrentTurn_on now m) = None"
  "pmap (endCurrentTurn_on now m) =
     (case currentTurn m of
        None \<Rightarrow> pmap m
      | Some t \<Rightarrow>
          (case pmap m (t_participantId t) of
             None \<Rightarrow> pmap m
           | Some p \<Rightarrow> (pmap m)(t_participantId t \<mapsto>
                          p\<lparr>p_speakingTime := p_speakingTime p + (now - t_startTime t)\<rparr>)))"
  "keys_distinct (endCurrentTurn_on now m) = keys_distinct m"
  "st_totalSpeakingTime (statistics (endCurrentTurn_on now m)) =
     st_totalSpeakingTime (statistics m) +
     (case currentTurn m of None \<Rightarrow> 0 | Some t \<Rightarrow> now - t_startTime t)"
  by (simp_all add: endCurrentTurn_on_def Let_def split: option.splits)

lemma ledger_core_end: "ledger_core m \<Longrightarrow> ledger_core (endCurrentTurn_on now m)"
proof (cases "currentTurn m")
  case None
  assume "ledger_core m"
  with None show ?thesis by (simp add: ledger_core_def turns_of_def)
next
  case (Some t)
  assume a: "ledger_core m"
  with Some obtain p where p: "pmap m (t_participantId t) = Some p"
    by (auto simp: ledger_core_def)
  from a Some p show ?thesis
    by (simp add: ledger_core_def turns_of_def)
qed


lemma startNewTurn_on_view [simp]:
  "turnHistory (startNewTurn_on now pid conf m) = turnHistory (endCurrentTurn_on now m)"
  "\<exists>t. currentTurn (startNewTurn_on now pid conf m) = Some t \<and> t_participantId t = pid"
  "pmap (startNewTurn_on now pid conf m) =
     (case pmap (endCurrentTurn_on now m) pid of
        None \<Rightarrow> pmap (endCurrentTurn_on now m)
      | Some p \<Rightarrow> (pmap (endCurrentTurn_on now m))(pid \<mapsto> p\<lparr>p_turnCount := p_turnCount p + 1\<rparr>))"
  "keys_distinct (startNewTurn_on now pid conf m) = keys_distinct m"
  "st_totalSpeakingTime (statistics (startNewTurn_on now pid conf m)) =
     st_totalSpeakingTime (statistics (endCurrentTurn_on now m))"
  by (simp_all add: startNewTurn_on_def Let_def endCurrentTurn_on_def[of now m] split: option.splits)

lemma ledger_core_turnCount:
  "ledger_core m \<Longrightarrow> turnHistory m' = turnHistory m \<Longrightarrow>
   st_totalSpeakingTime (statistics m') = st_totalSpeakingTime (statistics m) \<Longrightarrow>
   pmap m' = (case pmap m pid of None \<Rightarrow> pmap m | Some p \<Rightarrow> (pmap m)(pid \<mapsto> f p)) \<Longrightarrow>
   (\<And>p. p_speakingTime (f p) = p_speakingTime p) \<Longrightarrow>
   (\<And>t. currentTurn m' = Some t \<Longrightarrow> pmap m (t_participantId t) \<noteq> None) \<Longrightarrow>
   ledger_core m'"
  by (auto simp: ledger_core_def turns_of_def split: option.splits)


lemma pmap_end_None:
  "pmap (endCurrentTurn_on now m) k = None \<longleftrightarrow> pmap m k = None"
  by (simp split: option.splits)

lemma distinct_keys_update:
  "distinct (map fst (AList.update k v al)) = distinct (map fst al)"
  by (simp add: update_keys)

lemma ledger_ok_end: "ledger_ok m \<Longrightarrow> ledger_ok (endCurrentTurn_on now m)"
  by (simp add: ledger_ok_def ledger_core_end)

lemma ledger_ok_modify:
  assumes "ledger_ok m" and "\<And>p. p_speakingTime (f p) = p_speakingTime p"
  shows "ledger_ok (modify_participant pid f m)"
proof -
  have "ledger_core (modify_participant pid f m)"
  proof (rule ledger_core_turnCount[where m = m and pid = pid and f = f])
    show "ledger_core m" using assms(1) by (simp add: ledger_ok_def)
    fix t assume "currentTurn (modify_participant pid f m) = Some t"
    then show "pmap m (t_participantId t) \<noteq> None"
      using assms(1) by (simp add: ledger_ok_def ledger_core_def)
  qed (simp_all add: assms(2))
  with assms(1) show ?thesis by (simp add: ledger_ok_def)
qed

lemma ledger_ok_start:
  assumes "ledger_ok m" and "pmap m pid \<noteq> None"
  shows "ledger_ok (startNewTurn_on now pid conf m)"
proof -
  have e: "ledger_ok (endCurrentTurn_on now m)" using assms(1) by (rule ledger_ok_end)
  have "ledger_core (startNewTurn_on now pid conf m)"
  proof (rule ledger_core_turnCount[where m = "endCurrentTurn_on now m" and pid = pid
        and f = "\<lambda>p. p\<lparr>p_turnCount := p_turnCount p + 1\<rparr>"])
    show "ledger_core (endCurrentTurn_on now m)" using e by (simp add: ledger_ok_def)
    fix t assume "currentTurn (startNewTurn_on now pid conf m) = Some t"
    with startNewTurn_on_view(2)[of now pid conf m] have "t_participantId t = pid" by auto
    with assms(2) show "pmap (endCurrentTurn_on now m) (t_participantId t) \<noteq> None"
      by (simp only: pmap_end_None not_False_eq_True)
  qed simp_all
  with assms(1) show ?thesis by (simp add: ledger_ok_def)
qed

lemma ledger_ok_log [simp]: "ledger_ok (log_event_on cfg e m) = ledger_ok m"
  by (simp add: ledger_ok_def ledger_core_def turns_of_def)

lemma ledger_ok_remove: "ledger_ok m \<Longrightarrow> ledger_ok (removeParticipant_on cfg now pid m)"
  by (simp add: removeParticipant_on_def Let_def ledger_ok_end ledger_ok_modify)

lemma ledger_ok_voice:
  "ledger_ok m \<Longrightarrow> pmap m (va_participantId va) \<noteq> None \<Longrightarrow>
   ledger_ok (handleVoiceActivity_on cfg now va m)"
  by (simp add: handleVoiceActivity_on_def Let_def ledger_ok_end ledger_ok_modify ledger_ok_start)

lemma ledger_ok_status:
  "ledger_ok (m\<lparr>status := x, endTime := y\<rparr>) = ledger_ok m"
  by (simp add: ledger_ok_def ledger_core_def turns_of_def)

lemma ledger_ok_endMeeting: "ledger_ok m \<Longrightarrow> ledger_ok (endMeeting_on cfg now m)"
  by (simp add: endMeeting_on_def Let_def ledger_ok_end ledger_ok_status)

lemma ledger_ok_new: "ledger_ok (new_meeting now mid)"
  by (simp add: ledger_ok_def ledger_core_def keys_distinct_def pmap_def new_meeting_def turns_of_def)

lemma ledger_ok_add:
  assumes "ledger_ok m" and "pmap m (participant_key now info) = None"
  shows "ledger_ok (addParticipant_on cfg now info m)"
proof -
  let ?k = "participant_key now info"
  let ?m' = "addParticipant_on cfg now info m"
  have v: "turnHistory ?m' = turnHistory m" "currentTurn ?m' = currentTurn m"
    "pmap ?m' = (pmap m)(?k \<mapsto> new_participant now info)"
    "st_totalSpeakingTime (statistics ?m') = st_totalSpeakingTime (statistics m)"
    "keys_distinct ?m' = keys_distinct m"
    by (simp_all add: addParticipant_on_def Let_def pmap_def update_conv' keys_distinct_def
          distinct_keys_update)
  from assms have none: "filter (\<lambda>t. t_participantId t = ?k) (turnHistory m) = []"
    by (auto simp: ledger_ok_def ledger_core_def filter_empty_conv)
  have "p_speakingTime (new_participant now info) = 0" by (simp add: new_participant_def)
  with assms none show ?thesis
    by (auto simp: ledger_ok_def ledger_core_def v turns_of_def)
qed


lemma addParticipant_meetings:
  "addParticipant cfg now mid info f s = Inr (r, s1) \<Longrightarrow>
   AList.update mid v (meetings s1) = AList.update mid v (meetings s)"
  by (auto simp: addParticipant_def Let_def split: option.splits)

lemma add_initial_meetings:
  "add_initial cfg now mid infos s = Inr s' \<Longrightarrow>
   AList.update mid v (meetings s') = AList.update mid v (meetings s)"
proof (induction infos arbitrary: s)
  case Nil
  then show ?case by simp
next
  case (Cons info infos)
  from Cons.prems obtain r s1 where
    a: "addParticipant cfg now mid info False s = Inr (r, s1)" and
    b: "add_initial cfg now mid infos s1 = Inr s'"
    by (auto split: sum.splits)
  from Cons.IH[OF b] addParticipant_meetings[OF a] show ?case by simp
qed

lemma exec_ledger:
  assumes "every_meeting ledger_ok s" and "admissible c s"
  shows "every_meeting ledger_ok (exec cfg c s)"
proof (cases c)
  case (Pair now call)
  show ?thesis
  proof (cases call)
    case (InitializeMeeting mid infos)
    with Pair assms(1) show ?thesis
      by (auto simp: after_def initializeMeeting_def add_initial_meetings every_meeting_def
               split: sum.splits intro!: list_all_snd_update ledger_ok_new)
  next
    case (AddParticipant mid info)
    with Pair assms show ?thesis
      by (auto simp: after_def addParticipant_def Let_def pmap_def split: option.splits
               intro!: every_meeting_update ledger_ok_add dest: every_meeting_lookup)
  next
    case (RemoveParticipant mid pid)
    with Pair assms(1) show ?thesis
      by (auto simp: after_def removeParticipant_def Let_def split: option.splits
               intro!: every_meeting_update ledger_ok_remove dest: every_meeting_lookup)
  next
    case (HandleVoiceActivity mid va)
    with Pair assms(1) show ?thesis
      by (auto simp: after_def handleVoiceActivity_def Let_def pmap_def split: option.splits
               intro!: every_meeting_update ledger_ok_voice dest: every_meeting_lookup)
  next
    case (StartNewTurn mid pid conf)
    with Pair assms show ?thesis
      by (auto simp: startNewTurn_def pmap_def split: option.splits
               intro!: every_meeting_update ledger_ok_start dest: every_meeting_lookup)
  next
    case (EndCurrentTurn mid)
    with Pair assms(1) show ?thesis
      by (auto simp: after_def endCurrentTurn_def split: option.splits
               intro!: every_meeting_update ledger_ok_end dest: every_meeting_lookup)
  next
    case (EndMeeting mid)
    with Pair assms(1) show ?thesis
      by (auto simp: after_def endMeeting_def split: option.splits
               intro!: every_meeting_update ledger_ok_endMeeting dest: every_meeting_lookup)
  qed
qed

lemma run_ledger:
  "every_meeting ledger_ok s \<Longrightarrow> admissible_run cfg cs s \<Longrightarrow>
   every_meeting ledger_ok (run cfg cs s)"
  by (induction cs arbitrary: s) (simp_all add: exec_ledger)

text \<open>The total of the meeting follows the history under every call.\<close>

lemma total_ledger_end: "total_ledger m \<Longrightarrow> total_ledger (endCurrentTurn_on now m)"
  by (simp add: total_ledger_def split: option.splits)

lemma total_ledger_start: "total_ledger m \<Longrightarrow> total_ledger (startNewTurn_on now pid conf m)"
  by (simp add: total_ledger_def split: option.splits)

lemma total_ledger_log [simp]: "total_ledger (log_event_on cfg e m) = total_ledger m"
  by (simp add: total_ledger_def)

lemma total_ledger_modify [simp]: "total_ledger (modify_participant pid f m) = total_ledger m"
  by (simp add: total_ledger_def)

lemma total_ledger_add: "total_ledger m \<Longrightarrow> total_ledger (addParticipant_on cfg now info m)"
  by (simp add: total_ledger_def addParticipant_on_def Let_def)

lemma total_ledger_remove: "total_ledger m \<Longrightarrow> total_ledger (removeParticipant_on cfg now pid m)"
  by (simp add: removeParticipant_on_def Let_def total_ledger_end)

lemma total_ledger_voice: "total_ledger m \<Longrightarrow> total_ledger (handleVoiceActivity_on cfg now va m)"
  by (simp add: handleVoiceActivity_on_def Let_def total_ledger_end total_ledger_start)

lemma total_ledger_endMeeting: "total_ledger m \<Longrightarrow> total_ledger (endMeeting_on cfg now m)"
proof -
  assume a: "total_ledger m"
  have "\<And>x. total_ledger (x\<lparr>status := MeetingEnded, endTime := Some now\<rparr>) = total_ledger x"
    by (simp add: total_ledger_def)
  with a show ?thesis
    by (simp add: endMeeting_on_def Let_def total_ledger_end)
qed

lemma total_ledger_new: "total_ledger (new_meeting now mid)"
  by (simp add: total_ledger_def new_meeting_def)

lemma exec_total_ledger:
  assumes "every_meeting total_ledger s"
  shows "every_meeting total_ledger (exec cfg c s)"
proof (cases c)
  case (Pair now call)
  show ?thesis
  proof (cases call)
    case (InitializeMeeting mid infos)
    with Pair assms show ?thesis
      by (auto simp: after_def initializeMeeting_def add_initial_meetings every_meeting_def
               split: sum.splits intro!: list_all_snd_update total_ledger_new)
  next
    case (AddParticipant mid info)
    with Pair assms show ?thesis
      by (auto simp: after_def addParticipant_def Let_def split: option.splits
               intro!: every_meeting_update total_ledger_add dest: every_meeting_lookup)
  next
    case (RemoveParticipant mid pid)
    with Pair assms show ?thesis
      by (auto simp: after_def removeParticipant_def Let_def split: option.splits
               intro!: every_meeting_update total_ledger_remove dest: every_meeting_lookup)
  next
    case (HandleVoiceActivity mid va)
    with Pair assms show ?thesis
      by (auto simp: after_def handleVoiceActivity_def Let_def split: option.splits
               intro!: every_meeting_update total_ledger_voice dest: every_meeting_lookup)
  next
    case (StartNewTurn mid pid conf)
    with Pair assms show ?thesis
      by (auto simp: startNewTurn_def split: option.splits
               intro!: every_meeting_update total_ledger_start dest: every_meeting_lookup)
  next
    case (EndCurrentTurn mid)
    with Pair assms show ?thesis
      by (auto simp: after_def endCurrentTurn_def split: option.splits
               intro!: every_meeting_update total_ledger_end dest: every_meeting_lookup)
  next
    case (EndMeeting mid)
    with Pair assms show ?thesis
      by (auto simp: after_def endMeeting_def split: option.splits
               intro!: every_meeting_update total_ledger_endMeeting dest: every_meeting_lookup)
  qed
qed

lemma run_total_ledger:
  "every_meeting total_ledger s \<Longrightarrow> every_meeting total_ledger (run cfg cs s)"
  by (induction cs arbitrary: s) (simp_all add: exec_total_ledger)

text \<open>
  Claim C5, as amended. After any sequence of calls on a new manager, the total speaking
  time of every meeting is the sum of the durations of all turns of its history. After any
  sequence of calls in which \<open>addParticipant\<close> is never applied to a key the meeting already
  holds and \<open>startNewTurn\<close> is only called for a participant of the meeting, the speaking
  time of every participant of every meeting is the sum of the durations of the turns of
  the history attributed to that participant.
\<close>

theorem speaking_time_ledger:
  "every_meeting total_ledger (run cfg cs initial_manager) \<and>
   (admissible_run cfg cs initial_manager \<longrightarrow>
      every_meeting participant_ledger (run cfg cs initial_manager))"
proof
  have "every_meeting total_ledger initial_manager"
    by (simp add: every_meeting_def initial_manager_def)
  then show "every_meeting total_ledger (run cfg cs initial_manager)"
    by (rule run_total_ledger)
next
  show "admissible_run cfg cs initial_manager \<longrightarrow>
      every_meeting participant_ledger (run cfg cs initial_manager)"
  proof
    assume a: "admissible_run cfg cs initial_manager"
    have "every_meeting ledger_ok initial_manager"
      by (simp add: every_meeting_def initial_manager_def)
    then have "every_meeting ledger_ok (run cfg cs initial_manager)"
      using a by (rule run_ledger)
    then show "every_meeting participant_ledger (run cfg cs initial_manager)"
      by (rule every_meeting_mono) (rule ledger_ok_participant_ledger)
  qed
qed

theorem speaking_time_ledger_witness:
  "admissible_run default_config (meeting_opens @ p1_speaks) initial_manager \<and>
   every_meeting total_ledger (run default_config (meeting_opens @ p1_speaks) initial_manager) \<and>
   every_meeting participant_ledger
     (run default_config (meeting_opens @ p1_speaks) initial_manager) \<and>
   every_meeting total_ledger
     (run default_config (meeting_opens @ p1_speaks @ p1_rejoins) initial_manager) \<and>
   map (\<lambda>(k, m). (k, map (\<lambda>(pid, p). (pid, p_speakingTime p)) (participants m),
                   map (\<lambda>t. (t_participantId t, t_duration t)) (turnHistory m),
                   st_totalSpeakingTime (statistics m)))
     (meetings (run default_config (meeting_opens @ p1_speaks) initial_manager)) =
   [(''m1'', [(''p1'', 2000), (''p2'', 0)], [(''p1'', Some 2000)], 2000)]"
  using speaking_time_ledger [of default_config "meeting_opens @ p1_speaks"]
    speaking_time_ledger [of default_config "meeting_opens @ p1_speaks @ p1_rejoins"]
  by (simp add: fixture_defs manager_defs Let_def)

text \<open>
  Claim C5, as stated, fails in its half on participants, in two ways. \<open>addParticipant\<close>
  stores a new participant object under a key the meeting already holds: after \<open>p1\<close> has
  spoken for 2000 ms and is added again, the speaking time of \<open>p1\<close> is 0 while the history
  still holds the turn. And \<open>startNewTurn\<close> takes any id: after a turn of 2000 ms started
  for \<open>ghost\<close>, who is not in the meeting, \<open>ghost\<close> joins under a key the meeting does not
  hold yet, with speaking time 0 and a turn in the history.
\<close>

theorem speaking_time_ledger_broken:
  "\<not> every_meeting speaking_ledger
       (run default_config (meeting_opens @ p1_speaks @ p1_rejoins) initial_manager) \<and>
   \<not> every_meeting speaking_ledger
       (run default_config (ghost_speaks @ [ghost_joins]) initial_manager) \<and>
   admissible ghost_joins (run default_config ghost_speaks initial_manager)"
  by (simp add: fixture_defs p1_rejoins_def ghost_speaks_def ghost_joins_def manager_defs Let_def
        every_meeting_def speaking_ledger_def participant_ledger_def total_ledger_def
        turns_of_def turn_duration_def)

section \<open>Removing the active speaker\<close>

lemma list_all_update:
  "list_all (\<lambda>(k, q). Q k q) al \<Longrightarrow> Q k v \<Longrightarrow> list_all (\<lambda>(k, q). Q k q) (AList.update k v al)"
  by (induction al) auto

lemma ids_match_update:
  "ids_match al \<Longrightarrow> p_id v = k \<Longrightarrow> ids_match (AList.update k v al)"
  by (simp add: ids_match_def distinct_keys_update list_all_update)

lemma ids_match_lookup: "ids_match al \<Longrightarrow> map_of al k = Some q \<Longrightarrow> p_id q = k"
  by (auto simp: ids_match_def list_all_iff dest: map_of_SomeD)

lemma participants_modify [simp]:
  "participants (modify_participant pid f m) =
     (case map_of (participants m) pid of
        None \<Rightarrow> participants m
      | Some p \<Rightarrow> AList.update pid (f p) (participants m))"
  by (simp add: modify_participant_def split: option.splits)

lemma participants_wf_modify:
  "participants_wf m \<Longrightarrow> (\<And>q. p_id (f q) = p_id q) \<Longrightarrow>
   participants_wf (modify_participant pid f m)"
  by (auto simp: participants_wf_def split: option.splits
           intro!: ids_match_update dest: ids_match_lookup)

lemma participants_end [simp]:
  "participants (endCurrentTurn_on now m) =
     (case currentTurn m of
        None \<Rightarrow> participants m
      | Some t \<Rightarrow>
          participants (modify_participant (t_participantId t)
            (\<lambda>p. p\<lparr>p_speakingTime := p_speakingTime p + (now - t_startTime t)\<rparr>) m))"
  by (simp add: endCurrentTurn_on_def Let_def split: option.splits)

lemma participants_wf_end: "participants_wf m \<Longrightarrow> participants_wf (endCurrentTurn_on now m)"
  using participants_wf_modify[of m]
  by (simp add: participants_wf_def split: option.splits)

lemma participants_start [simp]:
  "participants (startNewTurn_on now pid conf m) =
     participants (modify_participant pid (\<lambda>p. p\<lparr>p_turnCount := p_turnCount p + 1\<rparr>)
        (endCurrentTurn_on now m))"
  by (simp add: startNewTurn_on_def Let_def endCurrentTurn_on_def[of now m] split: option.splits)

lemma participants_wf_start:
  "participants_wf m \<Longrightarrow> participants_wf (startNewTurn_on now pid conf m)"
proof -
  assume "participants_wf m"
  then have "participants_wf (endCurrentTurn_on now m)" by (rule participants_wf_end)
  then have "participants_wf (modify_participant pid (\<lambda>p. p\<lparr>p_turnCount := p_turnCount p + 1\<rparr>)
        (endCurrentTurn_on now m))"
    by (rule participants_wf_modify) simp
  then show ?thesis
    by (simp add: participants_wf_def del: participants_modify participants_end)
qed


lemma participants_wf_log [simp]:
  "participants_wf (log_event_on cfg e m) = participants_wf m"
  by (simp add: participants_wf_def)

lemma participants_wf_add: "participants_wf m \<Longrightarrow> participants_wf (addParticipant_on cfg now info m)"
  by (simp add: participants_wf_def addParticipant_on_def Let_def ids_match_update
        new_participant_def)

lemma participants_wf_remove:
  "participants_wf m \<Longrightarrow> participants_wf (removeParticipant_on cfg now pid m)"
  by (simp add: removeParticipant_on_def Let_def participants_wf_end participants_wf_modify)

lemma participants_wf_voice:
  "participants_wf m \<Longrightarrow> participants_wf (handleVoiceActivity_on cfg now va m)"
  by (simp add: handleVoiceActivity_on_def Let_def participants_wf_end participants_wf_modify
        participants_wf_start)

lemma participants_wf_endMeeting:
  "participants_wf m \<Longrightarrow> participants_wf (endMeeting_on cfg now m)"
proof -
  assume a: "participants_wf m"
  have "\<And>x. participants_wf (x\<lparr>status := MeetingEnded, endTime := Some now\<rparr>) = participants_wf x"
    by (simp add: participants_wf_def)
  with a show ?thesis
    by (simp add: endMeeting_on_def Let_def participants_wf_end)
qed

lemma participants_wf_new: "participants_wf (new_meeting now mid)"
  by (simp add: participants_wf_def ids_match_def new_meeting_def)

lemma exec_participants_wf:
  assumes "every_meeting participants_wf s"
  shows "every_meeting participants_wf (exec cfg c s)"
proof (cases c)
  case (Pair now call)
  show ?thesis
  proof (cases call)
    case (InitializeMeeting mid infos)
    with Pair assms show ?thesis
      by (auto simp: after_def initializeMeeting_def add_initial_meetings every_meeting_def
               split: sum.splits intro!: list_all_snd_update participants_wf_new)
  next
    case (AddParticipant mid info)
    with Pair assms show ?thesis
      by (auto simp: after_def addParticipant_def Let_def split: option.splits
               intro!: every_meeting_update participants_wf_add dest: every_meeting_lookup)
  next
    case (RemoveParticipant mid pid)
    with Pair assms show ?thesis
      by (auto simp: after_def removeParticipant_def Let_def split: option.splits
               intro!: every_meeting_update participants_wf_remove dest: every_meeting_lookup)
  next
    case (HandleVoiceActivity mid va)
    with Pair assms show ?thesis
      by (auto simp: after_def handleVoiceActivity_def Let_def split: option.splits
               intro!: every_meeting_update participants_wf_voice dest: every_meeting_lookup)
  next
    case (StartNewTurn mid pid conf)
    with Pair assms show ?thesis
      by (auto simp: startNewTurn_def split: option.splits
               intro!: every_meeting_update participants_wf_start dest: every_meeting_lookup)
  next
    case (EndCurrentTurn mid)
    with Pair assms show ?thesis
      by (auto simp: after_def endCurrentTurn_def split: option.splits
               intro!: every_meeting_update participants_wf_end dest: every_meeting_lookup)
  next
    case (EndMeeting mid)
    with Pair assms show ?thesis
      by (auto simp: after_def endMeeting_def split: option.splits
               intro!: every_meeting_update participants_wf_endMeeting dest: every_meeting_lookup)
  qed
qed

lemma run_participants_wf:
  "every_meeting participants_wf s \<Longrightarrow> every_meeting participants_wf (run cfg cs s)"
  by (induction cs arbitrary: s) (simp_all add: exec_participants_wf)

lemma reachable_meeting:
  assumes "map_of (meetings (run cfg cs initial_manager)) mid = Some m"
  shows "participants_wf m" and "turn_state_ok m"
proof -
  have "every_meeting participants_wf initial_manager" "every_meeting turn_state_ok initial_manager"
    by (simp_all add: every_meeting_def initial_manager_def)
  then have "every_meeting participants_wf (run cfg cs initial_manager)"
    "every_meeting turn_state_ok (run cfg cs initial_manager)"
    by (simp_all add: run_participants_wf run_turn_state)
  with assms show "participants_wf m" and "turn_state_ok m"
    by (auto dest: every_meeting_lookup)
qed

lemma map_of_update_same: "map_of (AList.update k v al) k = Some v"
  by (simp add: update_conv')

lemma getMeetingStatus_ids:
  "map_of (meetings s) mid = Some m \<Longrightarrow>
   \<exists>st. getMeetingStatus later mid s = Inr st \<and>
        map se_id (ms_list st) =
          map p_id (filter (\<lambda>q. p_status q = Active) (map snd (participants m)))"
  by (simp add: getMeetingStatus_def Let_def comp_def)

lemma active_ids_after_update:
  "ids_match al \<Longrightarrow> p_status v \<noteq> Active \<Longrightarrow>
   map p_id (filter (\<lambda>q. p_status q = Active) (map snd (AList.update k v al))) =
   map fst (filter (\<lambda>(j, q). j \<noteq> k \<and> p_status q = Active) al)"
proof (induction al)
  case Nil
  then show ?case by simp
next
  case (Cons x al)
  obtain j q where x: "x = (j, q)" by (cases x)
  from Cons.prems(1) x have jq: "p_id q = j" and rest: "ids_match al" and fresh: "j \<notin> fst ` set al"
    by (auto simp: ids_match_def)
  show ?case
  proof (cases "j = k")
    case True
    from rest fresh True have
      "map p_id (filter (\<lambda>q. p_status q = Active) (map snd al)) =
       map fst (filter (\<lambda>(j, q). j \<noteq> k \<and> p_status q = Active) al)"
      by (induction al) (auto simp: ids_match_def)
    with True x Cons.prems(2) show ?thesis by simp
  next
    case False
    with x jq Cons.IH[OF rest Cons.prems(2)] show ?thesis by simp
  qed
qed

text \<open>
  Claim C8. In a meeting reached by any sequence of calls, where the participant \<open>pid\<close> is
  the active speaker and a turn is open, \<open>removeParticipant\<close> succeeds: the open turn, which
  is the turn of \<open>pid\<close>, is appended to the history with the time of the call as its end
  time and the time since its start as its duration, which is added to the speaking time of
  \<open>pid\<close>; no turn stays open; the participant keeps its entry in the map, with status
  \<open>left\<close>; a later \<open>getMeetingStatus\<close> lists the other active participants and not \<open>pid\<close>;
  and the turns of \<open>pid\<close> in the history are the earlier ones followed by the closed turn.
\<close>

theorem removeParticipant_active_speaker:
  assumes "s = run cfg cs initial_manager"
    and "map_of (meetings s) mid = Some m"
    and "map_of (participants m) pid = Some p"
    and "activeSpeaker m = Some pid"
    and "currentTurn m = Some t"
  shows "\<exists>r s' m' p' st.
           removeParticipant cfg now mid pid s = Inr (r, s') \<and>
           map_of (meetings s') mid = Some m' \<and>
           t_participantId t = pid \<and>
           turnHistory m' =
             turnHistory m @
               [t\<lparr>t_endTime := Some now, t_duration := Some (now - t_startTime t)\<rparr>] \<and>
           turns_of pid m' =
             turns_of pid m @
               [t\<lparr>t_endTime := Some now, t_duration := Some (now - t_startTime t)\<rparr>] \<and>
           currentTurn m' = None \<and> activeSpeaker m' = None \<and>
           map fst (participants m') = map fst (participants m) \<and>
           map_of (participants m') pid = Some p' \<and> p_status p' = Left \<and>
           p_leaveTime p' = Some now \<and>
           p_speakingTime p' = p_speakingTime p + (now - t_startTime t) \<and>
           getMeetingStatus later mid s' = Inr st \<and>
           pid \<notin> set (map se_id (ms_list st)) \<and>
           map se_id (ms_list st) =
             map fst (filter (\<lambda>(k, q). k \<noteq> pid \<and> p_status q = Active) (participants m))"
proof -
  from assms(1,2) have wf: "participants_wf m" and ok: "turn_state_ok m"
    by (auto dest: reachable_meeting)
  from ok assms(4,5) have tp: "t_participantId t = pid"
    by (simp add: turn_state_ok_def speaker_matches_turn_def)
  let ?c = "t\<lparr>t_endTime := Some now, t_duration := Some (now - t_startTime t)\<rparr>"
  let ?m' = "removeParticipant_on cfg now pid m"
  let ?s' = "s\<lparr>meetings := AList.update mid ?m' (meetings s)\<rparr>"
  let ?p1 = "p\<lparr>p_status := Left, p_leaveTime := Some now\<rparr>"
  let ?p' = "?p1\<lparr>p_speakingTime := p_speakingTime ?p1 + (now - t_startTime t)\<rparr>"
  have parts: "participants ?m' = AList.update pid ?p' (participants m)"
    using assms(3,4,5) tp
    by (simp add: removeParticipant_on_def Let_def update_conv')
  have hist: "turnHistory ?m' = turnHistory m @ [?c]"
    and cur: "currentTurn ?m' = None" "activeSpeaker ?m' = None"
    using assms(4,5) by (simp_all add: removeParticipant_on_def Let_def complete_turn_def)
  have own: "turns_of pid ?m' = turns_of pid m @ [?c]"
    using tp by (simp add: turns_of_def hist)
  have keys: "map fst (participants ?m') = map fst (participants m)"
    using assms(3) by (auto simp: parts update_keys dest!: map_of_SomeD intro: rev_image_eqI)
  have look: "map_of (meetings ?s') mid = Some ?m'" by (simp add: map_of_update_same)
  from getMeetingStatus_ids[OF look, of later] obtain st where
    st: "getMeetingStatus later mid ?s' = Inr st"
        "map se_id (ms_list st) =
           map p_id (filter (\<lambda>q. p_status q = Active) (map snd (participants ?m')))"
    by blast
  from wf have "ids_match (participants m)" by (simp add: participants_wf_def)
  then have listed: "map se_id (ms_list st) =
      map fst (filter (\<lambda>(k, q). k \<noteq> pid \<and> p_status q = Active) (participants m))"
    unfolding st(2) parts by (rule active_ids_after_update) simp
  then have excl: "pid \<notin> set (map se_id (ms_list st))" by auto
  have step: "removeParticipant cfg now mid pid s =
          Inr (\<lparr>rr_participantId = pid, rr_participant = the (map_of (participants ?m') pid),
                rr_totalParticipants =
                  length (filter (\<lambda>q. p_status q = Active) (map snd (participants ?m')))\<rparr>, ?s')"
    using assms(2,3) by (simp add: removeParticipant_def Let_def)
  have p': "map_of (participants ?m') pid = Some ?p'" by (simp add: parts map_of_update_same)
  have "p_status ?p' = Left" "p_leaveTime ?p' = Some now"
    "p_speakingTime ?p' = p_speakingTime p + (now - t_startTime t)"
    by simp_all
  with step look tp hist own cur keys p' st(1) excl listed show ?thesis by blast
qed

theorem removeParticipant_active_speaker_witness:
  "\<exists>m p t.
     map_of (meetings (run default_config (meeting_opens @ [hd p1_speaks]) initial_manager)) ''m1''
       = Some m \<and>
     map_of (participants m) ''p1'' = Some p \<and>
     activeSpeaker m = Some ''p1'' \<and>
     currentTurn m = Some t \<and>
     (\<exists>r s' m' p' st.
        removeParticipant default_config 3000 ''m1'' ''p1''
          (run default_config (meeting_opens @ [hd p1_speaks]) initial_manager) = Inr (r, s') \<and>
        map_of (meetings s') ''m1'' = Some m' \<and>
        map (\<lambda>x. (t_participantId x, t_startTime x, t_endTime x, t_duration x)) (turnHistory m') =
          [(''p1'', 1000, Some 3000, Some 2000)] \<and>
        map (\<lambda>x. (t_participantId x, t_startTime x, t_endTime x, t_duration x))
          (turns_of ''p1'' m') = [(''p1'', 1000, Some 3000, Some 2000)] \<and>
        currentTurn m' = None \<and> activeSpeaker m' = None \<and>
        map fst (participants m') = [''p1'', ''p2''] \<and>
        map_of (participants m') ''p1'' = Some p' \<and> p_status p' = Left \<and>
        p_leaveTime p' = Some 3000 \<and> p_speakingTime p' = 2000 \<and>
        getMeetingStatus 4000 ''m1'' s' = Inr st \<and>
        ''p1'' \<notin> set (map se_id (ms_list st)) \<and>
        map se_id (ms_list st) = [''p2''])"
proof -
  let ?s = "run default_config (meeting_opens @ [hd p1_speaks]) initial_manager"
  define m where "m = the (map_of (meetings ?s) ''m1'')"
  define p where "p = the (map_of (participants m) ''p1'')"
  define t where "t = the (currentTurn m)"
  have h: "map_of (meetings ?s) ''m1'' = Some m" "map_of (participants m) ''p1'' = Some p"
    "activeSpeaker m = Some ''p1''" "currentTurn m = Some t"
    unfolding t_def p_def m_def by (simp_all add: fixture_defs manager_defs Let_def)
  have v: "turnHistory m = []" "t_startTime t = 1000" "t_participantId t = ''p1''"
    "p_speakingTime p = 0" "map fst (participants m) = [''p1'', ''p2'']"
    "map fst (filter (\<lambda>(k, q). k \<noteq> ''p1'' \<and> p_status q = Active) (participants m)) = [''p2'']"
    unfolding t_def p_def m_def by (simp_all add: fixture_defs manager_defs Let_def)
  from removeParticipant_active_speaker [OF refl h, of 3000 4000] obtain r s' m' p' st where
    c: "removeParticipant default_config 3000 ''m1'' ''p1'' ?s = Inr (r, s')"
       "map_of (meetings s') ''m1'' = Some m'"
       "turnHistory m' =
          turnHistory m @ [t\<lparr>t_endTime := Some 3000, t_duration := Some (3000 - t_startTime t)\<rparr>]"
       "turns_of ''p1'' m' =
          turns_of ''p1'' m @ [t\<lparr>t_endTime := Some 3000, t_duration := Some (3000 - t_startTime t)\<rparr>]"
       "currentTurn m' = None" "activeSpeaker m' = None"
       "map fst (participants m') = map fst (participants m)"
       "map_of (participants m') ''p1'' = Some p'" "p_status p' = Left"
       "p_leaveTime p' = Some 3000"
       "p_speakingTime p' = p_speakingTime p + (3000 - t_startTime t)"
       "getMeetingStatus 4000 ''m1'' s' = Inr st"
       "''p1'' \<notin> set (map se_id (ms_list st))"
       "map se_id (ms_list st) =
          map fst (filter (\<lambda>(k, q). k \<noteq> ''p1'' \<and> p_status q = Active) (participants m))"
    by blast
  have "map (\<lambda>x. (t_participantId x, t_startTime x, t_endTime x, t_duration x)) (turnHistory m') =
          [(''p1'', 1000, Some 3000, Some 2000)]"
    by (simp add: c(3) v)
  moreover have "map (\<lambda>x. (t_participantId x, t_startTime x, t_endTime x, t_duration x))
          (turns_of ''p1'' m') = [(''p1'', 1000, Some 3000, Some 2000)]"
  proof -
    have "turns_of ''p1'' m = []" by (simp add: turns_of_def v)
    then show ?thesis by (simp add: c(4) v)
  qed
  moreover have "p_speakingTime p' = 2000" by (simp add: c(11) v)
  moreover have "map fst (participants m') = [''p1'', ''p2'']" by (simp add: c(7) v)
  moreover have "map se_id (ms_list st) = [''p2'']" by (simp add: c(14) v)
  moreover note h c(1,2,5,6,8,9,10,12,13)
  ultimately show ?thesis
    apply -
    apply (intro exI conjI)
                     apply assumption+
    done
qed

section \<open>A speaking report from the speaker of the open turn\<close>

text \<open>
  Claim C10. When the open turn of a meeting belongs to the participant \<open>p\<close>, a report of
  \<open>handleVoiceActivity\<close> from \<open>p\<close> with \<open>isSpeaking\<close> and a confidence above 0.7 closes
  that turn at the time of the report, appends it to the history and opens a new turn for
  \<open>p\<close> starting then; the turn count of \<open>p\<close> and the total of the meeting each grow by
  one. The state after the report meets the same conditions, so every such report does so.
\<close>

theorem same_speaker_report_splits_turn:
  assumes "map_of (meetings s) mid = Some m"
    and "currentTurn m = Some t"
    and "t_participantId t = va_participantId va"
    and "map_of (participants m) (va_participantId va) = Some p"
    and "va_isSpeaking va"
    and "js_gt (va_confidence va) (Fin 0.7)"
  shows "\<exists>r s' m' p'.
           handleVoiceActivity cfg now mid va s = Inr (r, s') \<and>
           map_of (meetings s') mid = Some m' \<and>
           turnHistory m' =
             turnHistory m @
               [t\<lparr>t_endTime := Some now, t_duration := Some (now - t_startTime t)\<rparr>] \<and>
           currentTurn m' =
             Some \<lparr>t_participantId = va_participantId va, t_startTime = now,
                   t_confidence = va_confidence va,
                   t_turnId = ''turn_'' @ show_int now @ ''_'' @ va_participantId va,
                   t_endTime = None, t_duration = None\<rparr> \<and>
           activeSpeaker m' = Some (va_participantId va) \<and>
           map_of (participants m') (va_participantId va) = Some p' \<and>
           p_turnCount p' = p_turnCount p + 1 \<and>
           st_totalTurns (statistics m') = st_totalTurns (statistics m) + 1"
proof -
  let ?pid = "va_participantId va"
  let ?m' = "handleVoiceActivity_on cfg now va m"
  let ?s' = "s\<lparr>meetings := AList.update mid ?m' (meetings s)\<rparr>"
  have step: "handleVoiceActivity cfg now mid va s =
      Inr (VAOk mid ?pid (va_isSpeaking va) (activeSpeaker ?m') (currentTurn ?m'), ?s')"
    using assms(1,4) by (simp add: handleVoiceActivity_def Let_def)
  have m': "?m' = log_event_on cfg
           \<lparr>le_timestamp = now, le_type = ''voice_activity'', le_participantId = Some ?pid,
            le_data = VoiceActivityData (va_isSpeaking va) (va_confidence va) (va_audioLevel va)\<rparr>
           (modify_participant ?pid (\<lambda>p. p\<lparr>p_lastActivity := now\<rparr>)
              (startNewTurn_on now ?pid (va_confidence va) m))"
    using assms(5,6) by (simp add: handleVoiceActivity_on_def Let_def)
  have hist: "turnHistory ?m' =
      turnHistory m @ [t\<lparr>t_endTime := Some now, t_duration := Some (now - t_startTime t)\<rparr>]"
    using assms(2) by (simp add: m' complete_turn_def)
  have cur: "currentTurn ?m' =
             Some \<lparr>t_participantId = ?pid, t_startTime = now, t_confidence = va_confidence va,
                   t_turnId = ''turn_'' @ show_int now @ ''_'' @ ?pid,
                   t_endTime = None, t_duration = None\<rparr>"
    "activeSpeaker ?m' = Some ?pid"
    by (simp_all add: m')
  have tot: "st_totalTurns (statistics ?m') = st_totalTurns (statistics m) + 1"
    by (simp add: m' startNewTurn_on_def Let_def endCurrentTurn_on_def split: option.splits)
  have "\<exists>p'. map_of (participants ?m') ?pid = Some p' \<and> p_turnCount p' = p_turnCount p + 1"
    using assms(2,3,4)
    by (simp add: m' update_conv' split: option.splits)
  with step hist cur tot show ?thesis
    by (auto simp: map_of_update_same)
qed

theorem same_speaker_report_splits_turn_witness:
  "\<exists>m p t.
     map_of (meetings (run default_config (meeting_opens @ [hd p1_speaks]) initial_manager)) ''m1''
       = Some m \<and>
     currentTurn m = Some t \<and>
     t_participantId t = va_participantId (report ''p1'' True 0.8) \<and>
     map_of (participants m) (va_participantId (report ''p1'' True 0.8)) = Some p \<and>
     va_isSpeaking (report ''p1'' True 0.8) \<and>
     js_gt (va_confidence (report ''p1'' True 0.8)) (Fin 0.7) \<and>
     (\<exists>r s' m' p'.
        handleVoiceActivity default_config 2000 ''m1'' (report ''p1'' True 0.8)
          (run default_config (meeting_opens @ [hd p1_speaks]) initial_manager) = Inr (r, s') \<and>
        map_of (meetings s') ''m1'' = Some m' \<and>
        turnHistory m' =
          turnHistory m @
            [t\<lparr>t_endTime := Some 2000, t_duration := Some (2000 - t_startTime t)\<rparr>] \<and>
        map (\<lambda>x. (t_participantId x, t_startTime x, t_endTime x, t_duration x)) (turnHistory m') =
          [(''p1'', 1000, Some 2000, Some 1000)] \<and>
        map_option (\<lambda>x. (t_participantId x, t_startTime x, t_endTime x)) (currentTurn m') =
          Some (''p1'', 2000, None) \<and>
        map_of (participants m') ''p1'' = Some p' \<and>
        p_turnCount p = 1 \<and> p_turnCount p' = 2 \<and>
        st_totalTurns (statistics m) = 1 \<and> st_totalTurns (statistics m') = 2)"
proof -
  let ?s = "run default_config (meeting_opens @ [hd p1_speaks]) initial_manager"
  let ?va = "report ''p1'' True 0.8"
  define m where "m = the (map_of (meetings ?s) ''m1'')"
  define p where "p = the (map_of (participants m) ''p1'')"
  define t where "t = the (currentTurn m)"
  have h: "map_of (meetings ?s) ''m1'' = Some m" "currentTurn m = Some t"
    "t_participantId t = va_participantId ?va"
    "map_of (participants m) (va_participantId ?va) = Some p"
    "va_isSpeaking ?va" "js_gt (va_confidence ?va) (Fin 0.7)"
    unfolding t_def p_def m_def by (simp_all add: fixture_defs manager_defs Let_def)
  have v: "turnHistory m = []" "t_startTime t = 1000" "t_participantId t = ''p1''"
    "p_turnCount p = 1" "st_totalTurns (statistics m) = 1" "va_participantId ?va = ''p1''"
    unfolding t_def p_def m_def by (simp_all add: fixture_defs manager_defs Let_def)
  from same_speaker_report_splits_turn [OF h, of default_config 2000] obtain r s' m' p' where
    c: "handleVoiceActivity default_config 2000 ''m1'' ?va ?s = Inr (r, s')"
       "map_of (meetings s') ''m1'' = Some m'"
       "turnHistory m' =
          turnHistory m @ [t\<lparr>t_endTime := Some 2000, t_duration := Some (2000 - t_startTime t)\<rparr>]"
       "currentTurn m' =
             Some \<lparr>t_participantId = va_participantId ?va, t_startTime = 2000,
                   t_confidence = va_confidence ?va,
                   t_turnId = ''turn_'' @ show_int 2000 @ ''_'' @ va_participantId ?va,
                   t_endTime = None, t_duration = None\<rparr>"
       "map_of (participants m') (va_participantId ?va) = Some p'"
       "p_turnCount p' = p_turnCount p + 1"
       "st_totalTurns (statistics m') = st_totalTurns (statistics m) + 1"
    by blast
  have "map (\<lambda>x. (t_participantId x, t_startTime x, t_endTime x, t_duration x)) (turnHistory m') =
          [(''p1'', 1000, Some 2000, Some 1000)]"
    by (simp add: c(3) v)
  moreover have "map_option (\<lambda>x. (t_participantId x, t_startTime x, t_endTime x)) (currentTurn m') =
          Some (''p1'', 2000, None)"
    by (simp add: c(4) v report_def)
  ultimately show ?thesis using h v c by auto
qed

section \<open>Voice activity detection\<close>

lemma js_add_commute: "js_add a b = js_add b a"
  by (cases a; cases b) simp_all

lemma js_add_assoc: "js_add (js_add a b) c = js_add a (js_add b c)"
  by (cases a; cases b; cases c) simp_all

lemma foldl_js_add: "foldl (\<lambda>s x. js_add s (f x)) a xs = js_add a (js_sum (map f xs))"
proof (induction xs arbitrary: a)
  case Nil
  show ?case by (cases a) simp_all
next
  case (Cons x xs)
  then show ?case by (simp add: js_add_assoc)
qed

lemma js_sum_Fin: "js_sum (map Fin xs) = Fin (sum_list xs)"
  by (induction xs) simp_all

lemma js_add_zero [simp]: "js_add (Fin 0) a = a"
  by (cases a) simp_all

text \<open>
  Claim C7. \<open>getAdaptiveThreshold\<close> returns the static threshold
  \<open>-40 + (voiceActivityThreshold - 30) * 2\<close> of the configuration whenever the window of
  the meeting holds fewer than 10 samples; for a window of at least 10 samples with at least
  one entry marked non-speech it returns the mean \<open>energyDb\<close> of those entries plus 10, which
  for finite energies is their arithmetic mean plus 10.
\<close>

theorem getAdaptiveThreshold_cases:
  "(length (window eng mid) < 10 \<longrightarrow>
      getAdaptiveThreshold cfg eng mid e =
        Fin (real_of_int (- 40 + (voiceActivityThreshold cfg - 30) * 2))) \<and>
   (10 \<le> length (window eng mid) \<and> non_speech (window eng mid) \<noteq> [] \<longrightarrow>
      getAdaptiveThreshold cfg eng mid e =
        js_add (js_mean (map vs_energyDb (non_speech (window eng mid)))) (Fin 10)) \<and>
   (\<forall>xs. 10 \<le> length (window eng mid) \<and> xs \<noteq> [] \<and>
         map vs_energyDb (non_speech (window eng mid)) = map Fin xs \<longrightarrow>
      getAdaptiveThreshold cfg eng mid e = Fin (sum_list xs / real (length xs) + 10))"
proof (intro conjI impI allI)
  assume "length (window eng mid) < 10"
  then show "getAdaptiveThreshold cfg eng mid e =
        Fin (real_of_int (- 40 + (voiceActivityThreshold cfg - 30) * 2))"
    by (simp add: getAdaptiveThreshold_def window_def static_threshold_def split: option.splits)
next
  assume a: "10 \<le> length (window eng mid) \<and> non_speech (window eng mid) \<noteq> []"
  then obtain w where w: "map_of (vadBuffers eng) mid = Some w" "window eng mid = w"
    by (auto simp: window_def split: option.splits)
  with a show "getAdaptiveThreshold cfg eng mid e =
        js_add (js_mean (map vs_energyDb (non_speech (window eng mid)))) (Fin 10)"
    by (simp add: getAdaptiveThreshold_def Let_def non_speech_def js_mean_def foldl_js_add)
next
  fix xs
  assume a: "10 \<le> length (window eng mid) \<and> xs \<noteq> [] \<and>
         map vs_energyDb (non_speech (window eng mid)) = map Fin xs"
  then obtain w where w: "map_of (vadBuffers eng) mid = Some w" "window eng mid = w"
    by (auto simp: window_def split: option.splits)
  from a have len: "length (non_speech (window eng mid)) = length xs"
    by (metis length_map)
  with a have ne: "non_speech (window eng mid) \<noteq> []" by auto
  from a w len ne show "getAdaptiveThreshold cfg eng mid e = Fin (sum_list xs / real (length xs) + 10)"
    by (simp add: getAdaptiveThreshold_def Let_def non_speech_def foldl_js_add js_sum_Fin)
qed

theorem getAdaptiveThreshold_cases_witness:
  "length (window new_engine ''m1'') < 10 \<and>
   getAdaptiveThreshold default_audio_config new_engine ''m1'' (Fin 0) = Fin (- 40) \<and>
   10 \<le> length (window \<lparr>vadBuffers = [(''m1'', quiet_window)]\<rparr> ''m1'') \<and>
   non_speech (window \<lparr>vadBuffers = [(''m1'', quiet_window)]\<rparr> ''m1'') \<noteq> [] \<and>
   map vs_energyDb (non_speech (window \<lparr>vadBuffers = [(''m1'', quiet_window)]\<rparr> ''m1'')) =
     map Fin [- 50, - 50, - 50, - 50, - 50, - 70, - 70, - 70, - 70, - 70] \<and>
   getAdaptiveThreshold default_audio_config \<lparr>vadBuffers = [(''m1'', quiet_window)]\<rparr> ''m1'' (Fin 0) =
     Fin (- 50)"
proof -
  let ?eng = "\<lparr>vadBuffers = [(''m1'', quiet_window)]\<rparr>"
  let ?xs = "[- 50, - 50, - 50, - 50, - 50, - 70, - 70, - 70, - 70, - 70] :: real list"
  have a: "length (window new_engine ''m1'') < 10"
    by (simp add: window_def new_engine_def)
  have b: "10 \<le> length (window ?eng ''m1'')" "non_speech (window ?eng ''m1'') \<noteq> []"
    "map vs_energyDb (non_speech (window ?eng ''m1'')) = map Fin ?xs"
    by (simp_all add: window_def quiet_window_def non_speech_def)
  from getAdaptiveThreshold_cases [of new_engine "''m1''" default_audio_config "Fin 0"] a
  have c: "getAdaptiveThreshold default_audio_config new_engine ''m1'' (Fin 0) = Fin (- 40)"
    by (simp add: default_audio_config_def)
  from getAdaptiveThreshold_cases [of ?eng "''m1''" default_audio_config "Fin 0"] b
  have "getAdaptiveThreshold default_audio_config ?eng ''m1'' (Fin 0) =
          Fin (sum_list ?xs / real (length ?xs) + 10)"
    by blast
  then have d: "getAdaptiveThreshold default_audio_config ?eng ''m1'' (Fin 0) = Fin (- 50)"
    by simp
  from a b c d show ?thesis by blast
qed

lemma vad_confidence_Fin:
  "vad_confidence (Fin e) (Fin t) = Fin (min 1 (max 0 ((e - t + 20) / 40)))"
  by (simp add: vad_confidence_def js_sub_def min_def max_def)

lemma detectVoiceActivity_fields:
  assumes "r = fst (detectVoiceActivity cfg now buf mid eng)"
  shows "voiceDetected r = js_gt (energyDb r) (threshold r)"
    and "confidence r = vad_confidence (energyDb r) (threshold r)"
  using assms
  by (cases buf; simp add: detectVoiceActivity_def Let_def vad_confidence_Fin)+

text \<open>
  What holds of every result of \<open>detectVoiceActivity\<close>: \<open>voiceDetected\<close> is the
  comparison of its \<open>energyDb\<close> with its \<open>threshold\<close>, and its \<open>confidence\<close> is
  \<open>(energyDb - threshold + 20) / 40\<close> passed through \<open>Math.max(0, _)\<close> and
  \<open>Math.min(1, _)\<close>. When both are finite, that is the value clamped to the interval from 0
  to 1, and of two results with the same threshold the one with the greater energy has the
  greater or equal confidence.
\<close>

lemma detectVoiceActivity_finite:
  assumes "r = fst (detectVoiceActivity cfg now buf mid eng)"
    and "r' = fst (detectVoiceActivity cfg' now' buf' mid' eng')"
  shows "(voiceDetected r \<longleftrightarrow> js_gt (energyDb r) (threshold r)) \<and>
         confidence r =
           js_min (Fin 1)
             (js_max (Fin 0)
                (js_div (js_add (js_sub (energyDb r) (threshold r)) (Fin 20)) (Fin 40))) \<and>
         (\<forall>e t. energyDb r = Fin e \<and> threshold r = Fin t \<longrightarrow>
            (voiceDetected r \<longleftrightarrow> t < e) \<and>
            confidence r = Fin (min 1 (max 0 ((e - t + 20) / 40)))) \<and>
         (\<forall>e e' t. energyDb r = Fin e \<and> energyDb r' = Fin e' \<and>
                   threshold r = Fin t \<and> threshold r' = Fin t \<and> e \<le> e' \<longrightarrow>
            (\<exists>c c'. confidence r = Fin c \<and> confidence r' = Fin c' \<and> c \<le> c'))"
proof -
  note f = detectVoiceActivity_fields [OF assms(1)]
  note f' = detectVoiceActivity_fields [OF assms(2)]
  have 1: "voiceDetected r \<longleftrightarrow> js_gt (energyDb r) (threshold r)" using f(1) by simp
  have 2: "confidence r =
           js_min (Fin 1)
             (js_max (Fin 0)
                (js_div (js_add (js_sub (energyDb r) (threshold r)) (Fin 20)) (Fin 40)))"
    using f(2) by (simp add: vad_confidence_def)
  have 3: "(voiceDetected r \<longleftrightarrow> t < e) \<and>
            confidence r = Fin (min 1 (max 0 ((e - t + 20) / 40)))"
    if "energyDb r = Fin e \<and> threshold r = Fin t" for e t
    using that f by (simp add: vad_confidence_Fin)
  have 4: "\<exists>c c'. confidence r = Fin c \<and> confidence r' = Fin c' \<and> c \<le> c'"
    if h: "energyDb r = Fin e \<and> energyDb r' = Fin e' \<and>
           threshold r = Fin t \<and> threshold r' = Fin t \<and> e \<le> e'" for e e' t
  proof -
    from h have "(e - t + 20) / 40 \<le> (e' - t + 20) / 40" by simp
    then have "min 1 (max 0 ((e - t + 20) / 40)) \<le> min 1 (max 0 ((e' - t + 20) / 40))"
      by (simp add: min_def max_def)
    with h f(2) f'(2) show ?thesis by (simp add: vad_confidence_Fin)
  qed
  from 1 2 3 4 show ?thesis by blast
qed

lemma log10_tenth_power: "log 10 (1 / 10000000000) = - 10"
proof -
  have "log 10 ((10::real) ^ 10) = real 10"
    by (rule log_pow_cancel) simp_all
  moreover have "(10::real) ^ 10 = 10000000000" by simp
  ultimately have "log 10 (10000000000::real) = 10" by simp
  then show ?thesis by (simp add: log_recip)
qed

lemma silent_frame_result:
  "fst (detectVoiceActivity default_audio_config 0 silent_frame ''m1'' new_engine) =
     \<lparr>voiceDetected = False, confidence = Fin 0, energyDb = Fin (- 200),
      threshold = Fin (- 40), rmsEnergy = Fin 0\<rparr>"
  by (simp add: detectVoiceActivity_def silent_frame_def sum_squares_def Let_def
        getAdaptiveThreshold_def new_engine_def static_threshold_def default_audio_config_def
        log10_tenth_power vad_confidence_Fin)

lemma loud_frame_result:
  "fst (detectVoiceActivity default_audio_config 0 loud_frame ''m1'' new_engine) =
     \<lparr>voiceDetected = True, confidence = Fin 1,
      energyDb = Fin (20 * log 10 (1 + 1 / 10 ^ 10)),
      threshold = Fin (- 40), rmsEnergy = Fin 1\<rparr>"
proof -
  have pos: "0 < log 10 (1 + 1 / 10000000000 :: real)" by simp
  then have "- 2 < log 10 (1 + 1 / 10000000000 :: real)" by linarith
  moreover from pos have "min 1 (max 0 ((60 + 20 * log 10 (1 + 1 / 10000000000 :: real)) / 40)) = 1"
    by (simp add: min_def max_def)
  ultimately show ?thesis
    by (simp add: detectVoiceActivity_def loud_frame_def sum_squares_def Let_def
        getAdaptiveThreshold_def new_engine_def static_threshold_def default_audio_config_def
        vad_confidence_Fin)
qed

lemma detectVoiceActivity_finite_example:
  "\<exists>r r' e e' t.
     r = fst (detectVoiceActivity default_audio_config 0 silent_frame ''m1'' new_engine) \<and>
     r' = fst (detectVoiceActivity default_audio_config 0 loud_frame ''m1'' new_engine) \<and>
     energyDb r = Fin e \<and> energyDb r' = Fin e' \<and>
     threshold r = Fin t \<and> threshold r' = Fin t \<and> e \<le> e' \<and>
     \<not> voiceDetected r \<and> voiceDetected r' \<and>
     confidence r = Fin 0 \<and> confidence r' = Fin 1 \<and>
     (\<exists>c c'. confidence r = Fin c \<and> confidence r' = Fin c' \<and> c \<le> c')"
proof -
  let ?r = "fst (detectVoiceActivity default_audio_config 0 silent_frame ''m1'' new_engine)"
  let ?r' = "fst (detectVoiceActivity default_audio_config 0 loud_frame ''m1'' new_engine)"
  let ?e' = "20 * log 10 (1 + 1 / 10 ^ 10 :: real)"
  have "0 < log 10 (1 + 1 / 10 ^ 10 :: real)" by simp
  then have le: "- 200 \<le> ?e'" by linarith
  have h: "energyDb ?r = Fin (- 200) \<and> energyDb ?r' = Fin ?e' \<and>
           threshold ?r = Fin (- 40) \<and> threshold ?r' = Fin (- 40) \<and> - 200 \<le> ?e'"
    using le by (simp only: silent_frame_result loud_frame_result) simp
  with detectVoiceActivity_finite [OF refl refl, of default_audio_config 0 silent_frame "''m1''"
      new_engine default_audio_config 0 loud_frame "''m1''" new_engine]
  have "\<exists>c c'. confidence ?r = Fin c \<and> confidence ?r' = Fin c' \<and> c \<le> c'"
    by blast
  moreover have "\<not> voiceDetected ?r" "voiceDetected ?r'" "confidence ?r = Fin 0"
    "confidence ?r' = Fin 1"
    by (simp_all only: silent_frame_result loud_frame_result) simp_all
  ultimately show ?thesis using h by blast
qed

lemma empty_frame_step:
  "snd (detectVoiceActivity default_audio_config 0 (Some []) ''m1'' new_engine) =
     \<lparr>vadBuffers =
        [(''m1'', [\<lparr>vs_energyDb = NaN, vs_voiceDetected = False, vs_timestamp = 0\<rparr>])]\<rparr>"
  by (simp add: detectVoiceActivity_def sum_squares_def Let_def getAdaptiveThreshold_def
        static_threshold_def updateVADBuffer_def new_engine_def default_audio_config_def)

lemma silent_frame_step:
  "length w < 9 \<Longrightarrow>
   snd (detectVoiceActivity default_audio_config now silent_frame ''m1''
          \<lparr>vadBuffers = [(''m1'', w)]\<rparr>) =
   \<lparr>vadBuffers =
      [(''m1'', w @ [\<lparr>vs_energyDb = Fin (- 200), vs_voiceDetected = False, vs_timestamp = now\<rparr>])]\<rparr>"
  by (simp add: detectVoiceActivity_def silent_frame_def sum_squares_def Let_def
        getAdaptiveThreshold_def static_threshold_def default_audio_config_def
        log10_tenth_power updateVADBuffer_def)

lemma silent_frame_step9:
  "length w = 9 \<Longrightarrow>
   snd (detectVoiceActivity default_audio_config now silent_frame ''m1''
          \<lparr>vadBuffers = [(''m1'', w)]\<rparr>) =
   \<lparr>vadBuffers =
      [(''m1'', w @ [\<lparr>vs_energyDb = Fin (- 200), vs_voiceDetected = False, vs_timestamp = now\<rparr>])]\<rparr>"
  by (simp add: detectVoiceActivity_def silent_frame_def sum_squares_def Let_def
        getAdaptiveThreshold_def static_threshold_def default_audio_config_def
        log10_tenth_power updateVADBuffer_def)

lemma after_empty_frame_window:
  "after_empty_frame =
     \<lparr>vadBuffers =
        [(''m1'',
          \<lparr>vs_energyDb = NaN, vs_voiceDetected = False, vs_timestamp = 0\<rparr> #
          map (\<lambda>now. \<lparr>vs_energyDb = Fin (- 200), vs_voiceDetected = False, vs_timestamp = now\<rparr>)
            [50, 100, 150, 200, 250, 300, 350, 400, 450])]\<rparr>"
  by (simp add: after_empty_frame_def empty_frame_step silent_frame_step silent_frame_step9)

text \<open>
  Claim C3. The confidence of \<open>detectVoiceActivity\<close> is claimed to be clamped to the
  interval from 0 to 1 for every frame and meeting. On a frame without samples the energy is
  \<open>0 / 0\<close>, and \<open>Math.min\<close> and \<open>Math.max\<close> pass NaN through: the confidence is NaN. The
  NaN energy enters the rolling window as a non-speech entry, and once the window holds ten
  entries the threshold, a mean over the window, is NaN as well: a frame at full scale is
  then returned with \<open>voiceDetected\<close> false and a NaN confidence.
\<close>

theorem confidence_not_a_number:
  "confidence (fst (detectVoiceActivity default_audio_config 0 (Some []) ''m1'' new_engine)) = NaN \<and>
   fst (detectVoiceActivity default_audio_config 500 loud_frame ''m1'' after_empty_frame) =
     \<lparr>voiceDetected = False, confidence = NaN,
      energyDb = Fin (20 * log 10 (1 + 1 / 10 ^ 10)), threshold = NaN, rmsEnergy = Fin 1\<rparr>"
  by (simp add: after_empty_frame_window detectVoiceActivity_def loud_frame_def sum_squares_def
        Let_def getAdaptiveThreshold_def static_threshold_def default_audio_config_def
        new_engine_def vad_confidence_def js_sub_def)

text \<open>
  Claim C6. \<open>detectVoiceActivity\<close> has no path that throws, but a frame without samples
  is not a computation error for it: \<open>0 / 0\<close> is NaN, nothing is thrown, and the result
  carries a NaN confidence instead of the safe default 0; the NaN energy is also pushed to
  the rolling window of the meeting.
\<close>

theorem detectVoiceActivity_empty_frame:
  "detectVoiceActivity default_audio_config 0 (Some []) ''m1'' new_engine =
     (\<lparr>voiceDetected = False, confidence = NaN, energyDb = NaN, threshold = Fin (- 40),
       rmsEnergy = NaN\<rparr>,
      \<lparr>vadBuffers =
         [(''m1'', [\<lparr>vs_energyDb = NaN, vs_voiceDetected = False, vs_timestamp = 0\<rparr>])]\<rparr>)"
  by (simp add: detectVoiceActivity_def sum_squares_def Let_def vad_confidence_def js_sub_def
        getAdaptiveThreshold_def static_threshold_def updateVADBuffer_def new_engine_def
        default_audio_config_def)


section \<open>Frame codec round trip\<close>

lemma toLowerCase_formats [simp]:
  "toLowerCase ''pcm16'' = ''pcm16''"
  "toLowerCase ''float32'' = ''float32''"
  by (simp_all add: toLowerCase_def lower_char_def)

text \<open>
  Claim C4. \<open>encodeAudioData(decodeAudioData(payload, format), format)\<close> is claimed to
  give back the payload for \<open>pcm16\<close> and \<open>float32\<close>. \<open>decodeAudioData\<close> makes a typed array
  on the payload's \<open>ArrayBuffer\<close> at the payload's offset and length, and
  \<open>encodeAudioData\<close> encodes the whole \<open>ArrayBuffer\<close>: for a two-byte \<open>pcm16\<close> payload that
  is a slice of four bytes, and for a four-byte \<open>float32\<close> payload at the start of eight
  bytes, the encoding is that of all the bytes, not of the payload.
\<close>

theorem encode_decode_not_payload:
  "decodeAudioData from_base64 (BufferData sliced_payload) ''pcm16'' =
     Inr \<lparr>ta_kind = Int16Array, ta_buffer = [1, 2, 3, 4], ta_byteOffset = 2, ta_length = 1\<rparr> \<and>
   encodeAudioData
     \<lparr>ta_kind = Int16Array, ta_buffer = [1, 2, 3, 4], ta_byteOffset = 2, ta_length = 1\<rparr>
     ''pcm16'' = Inr ''AQIDBA=='' \<and>
   base64 (buffer_bytes sliced_payload) = ''AwQ='' \<and>
   decodeAudioData from_base64 (BufferData pooled_payload) ''float32'' =
     Inr \<lparr>ta_kind = Float32Array, ta_buffer = [0, 0, 128, 63, 9, 9, 9, 9], ta_byteOffset = 0,
          ta_length = 1\<rparr> \<and>
   encodeAudioData
     \<lparr>ta_kind = Float32Array, ta_buffer = [0, 0, 128, 63, 9, 9, 9, 9], ta_byteOffset = 0,
      ta_length = 1\<rparr> ''float32'' = Inr ''AACAPwkJCQk='' \<and>
   base64 (buffer_bytes pooled_payload) = ''AACAPw==''"
  by (simp add: decodeAudioData_def encodeAudioData_def new_typed_array_def sliced_payload_def
        pooled_payload_def buffer_bytes_def b64_char_def Let_def)

text \<open>The round trip holds for a payload that is the whole of its \<open>ArrayBuffer\<close>.\<close>

lemma encode_decode_whole_buffer:
  assumes "b_byteOffset b = 0" and "b_length b = length (b_buffer b)"
    and "format = ''pcm16'' \<or> format = ''float32''"
  shows "\<exists>ta. decodeAudioData from_base64 (BufferData b) format = Inr ta \<and>
              encodeAudioData ta format = Inr (base64 (buffer_bytes b))"
  using assms
  by (auto simp: decodeAudioData_def encodeAudioData_def new_typed_array_def buffer_bytes_def)

section \<open>Routing audio to a room\<close>

text \<open>
  Claim C9, as stated, fails: for a room whose only connection is closed the result of
  \<open>handleLiveKitAudio\<close> is the success object with \<open>forwardedToTeams: true\<close>; it reports
  no number of recipients, and the skipped send is counted nowhere.
\<close>

theorem zero_recipients_reported_forwarded:
  "open_connections ''room1'' closed_socket_bridge = [] \<and>
   handleLiveKitAudio 0 audio_for_room1 closed_socket_bridge =
     (LiveKitOk ''room1'' (Some ''agent'') True, []) \<and>
   forwardedToTeams (fst (handleLiveKitAudio 0 audio_for_room1 closed_socket_bridge))"
  by (simp add: handleLiveKitAudio_def forwardAudioToTeams_def findConnectionsByRoom_def
        closed_socket_bridge_def audio_for_room1_def open_connections_def Let_def)

lemma concat_sends:
  "concat (map (\<lambda>c. if ws_readyState (c_ws c) = OPEN then sendMessage (c_ws c) msg else []) cs) =
     map (\<lambda>c. (ws_connectionId (c_ws c), msg)) (filter (\<lambda>c. ws_readyState (c_ws c) = OPEN) cs)"
  by (induction cs) (simp_all add: sendMessage_def)

text \<open>
  Claim C9, as amended. For every audio message with audio data that names a room,
  \<open>handleLiveKitAudio\<close> returns the success object, with \<open>forwardedToTeams: true\<close> and no
  count; it sends the message once to each connection of the room that is open, in order,
  and to no other; with zero open connections it sends nothing.
\<close>

theorem routing_best_effort:
  assumes "truthy (lp_audioData payload)"
    and "lp_roomName payload = Some roomName" and "roomName \<noteq> []"
  shows "fst (handleLiveKitAudio now payload br) =
           LiveKitOk roomName (lp_participantId payload) True \<and>
         map fst (snd (handleLiveKitAudio now payload br)) =
           map (\<lambda>c. ws_connectionId (c_ws c)) (open_connections roomName br) \<and>
         (open_connections roomName br = [] \<longrightarrow> snd (handleLiveKitAudio now payload br) = [])"
  using assms
  by (simp add: handleLiveKitAudio_def forwardAudioToTeams_def Let_def concat_sends
        open_connections_def comp_def)

theorem routing_best_effort_witness:
  "truthy (lp_audioData audio_for_room1) \<and>
   lp_roomName audio_for_room1 = Some ''room1'' \<and> ''room1'' \<noteq> [] \<and>
   open_connections ''room1'' closed_socket_bridge = [] \<and>
   fst (handleLiveKitAudio 0 audio_for_room1 closed_socket_bridge) =
     LiveKitOk ''room1'' (lp_participantId audio_for_room1) True \<and>
   snd (handleLiveKitAudio 0 audio_for_room1 closed_socket_bridge) = [] \<and>
   map fst (snd (handleLiveKitAudio 0 audio_for_room1 mixed_bridge)) = [''conn_2'']"
proof -
  have h: "truthy (lp_audioData audio_for_room1)" "lp_roomName audio_for_room1 = Some ''room1''"
    "''room1'' \<noteq> []"
    by (simp_all add: audio_for_room1_def)
  have o: "open_connections ''room1'' closed_socket_bridge = []"
    "map (\<lambda>c. ws_connectionId (c_ws c)) (open_connections ''room1'' mixed_bridge) = [''conn_2'']"
    by (simp_all add: open_connections_def findConnectionsByRoom_def closed_socket_bridge_def
          mixed_bridge_def)
  from routing_best_effort [OF h, of 0 closed_socket_bridge]
       routing_best_effort [OF h, of 0 mixed_bridge] h o
  show ?thesis by simp
qed


end
